theory Spec2Isabelle
  imports Complex_Main
begin

section \<open>Data model of the simplex utilities (simplex/HSimplex.cpp)\<close>

text \<open>
  The C++ structures read and written by the functions of \<^verbatim>\<open>HSimplex.cpp\<close>.
  A \<^verbatim>\<open>double\<close> is idealised as a \<^typ>\<open>real\<close>: every property below is about which
  value is stored where and how values compare, never about rounding. A \<^verbatim>\<open>vector\<close> is
  a list; an \<^verbatim>\<open>int\<close> used as an index or a dimension is a \<^typ>\<open>nat\<close>, an \<^verbatim>\<open>int\<close> used
  as a flag, a move or a counter is an \<^typ>\<open>int\<close>. The trailing underscore of the C++
  member names is dropped.
\<close>

text \<open>
  Modelled from the spec: the constant \<^verbatim>\<open>HIGHS_CONST_INF\<close> is declared in a header that
  is not part of the sources at hand; the data model of the specification gives the
  sentinel as \<^verbatim>\<open>INF = 1e30\<close>.
\<close>

definition HIGHS_CONST_INF :: real where
  "HIGHS_CONST_INF = 10 ^ 30"

record HighsSimplexLpStatus =
  valid :: bool
  is_transposed :: bool
  is_scaled :: bool
  is_permuted :: bool
  is_tightened :: bool
  has_basis :: bool
  has_matrix_col_wise :: bool
  has_matrix_row_wise :: bool
  has_factor_arrays :: bool
  has_dual_steepest_edge_weights :: bool
  has_nonbasic_dual_values :: bool
  has_basic_primal_values :: bool
  has_invert :: bool
  has_fresh_invert :: bool
  has_fresh_rebuild :: bool
  has_dual_objective_value :: bool

datatype LpAction =
  TRANSPOSE | SCALE | PERMUTE | TIGHTEN | NEW_COSTS | NEW_BOUNDS | NEW_BASIS
  | NEW_COLS | NEW_ROWS | DEL_COLS | DEL_ROWS | DEL_ROWS_BASIS_OK

record HighsLp =
  numCol :: nat
  numRow :: nat
  Astart :: "nat list"
  Aindex :: "nat list"
  Avalue :: "real list"
  colCost :: "real list"
  colLower :: "real list"
  colUpper :: "real list"
  rowLower :: "real list"
  rowUpper :: "real list"
  sense :: int
  offset :: real

record HighsBasis =
  basicIndex :: "nat list"
  nonbasicFlag :: "int list"
  nonbasicMove :: "int list"

record HighsSimplexInfo =
  workCost :: "real list"
  workDual :: "real list"
  workShift :: "real list"
  workLower :: "real list"
  workUpper :: "real list"
  workRange :: "real list"
  workValue :: "real list"
  baseLower :: "real list"
  baseUpper :: "real list"
  baseValue :: "real list"
  numTotRandomValue :: "real list"
  perturb_costs :: int
  costs_perturbed :: int
  dual_feasibility_tolerance :: real
  dualObjectiveValue :: real
  updatedDualObjectiveValue :: real
  update_count :: int
  num_basic_logicals :: int

text \<open>
  Modelled from the spec: the class \<^verbatim>\<open>HFactor\<close> is not part of the sources at hand. The
  specification says of \<^verbatim>\<open>build()\<close> that it returns the rank deficiency and, on rank
  deficiency, records the missing pivot columns and rows in \<^verbatim>\<open>noPvC\<close> and \<^verbatim>\<open>noPvR\<close> so
  that the caller can repair the basis. The factor is this record; \<^verbatim>\<open>build\<close> itself is a
  parameter of the functions that call it.
\<close>

record HFactor =
  rankDeficiency :: int
  noPvC :: "nat list"
  noPvR :: "nat list"

text \<open>
  \<^verbatim>\<open>HighsModelObject\<close>: the original LP, the LP the simplex solver works on, its basis,
  the work arrays, the status flags, the cost scale \<^verbatim>\<open>scale_.cost_\<close> and the factor.
  The class \<^verbatim>\<open>HighsRandom\<close> is not part of the sources at hand either: its state is the
  sequence \<open>random_fractions\<close> of the values that successive calls of
  \<^verbatim>\<open>random_.fraction()\<close> return, and the number \<open>random_count\<close> of calls made so far.
\<close>

record HighsModelObject =
  lp :: HighsLp
  simplex_lp :: HighsLp
  simplex_basis :: HighsBasis
  simplex_info :: HighsSimplexInfo
  simplex_lp_status :: HighsSimplexLpStatus
  scale_cost :: real
  factor :: HFactor
  random_fractions :: "nat \<Rightarrow> real"
  random_count :: nat

section \<open>Status flags\<close>

definition invalidate_simplex_lp_data :: "HighsSimplexLpStatus \<Rightarrow> HighsSimplexLpStatus" where
  "invalidate_simplex_lp_data s =
     s\<lparr>has_basis := False,
       has_matrix_col_wise := False,
       has_matrix_row_wise := False,
       has_dual_steepest_edge_weights := False,
       has_nonbasic_dual_values := False,
       has_basic_primal_values := False,
       has_invert := False,
       has_fresh_invert := False,
       has_fresh_rebuild := False,
       has_dual_objective_value := False\<rparr>"

fun update_simplex_lp_status :: "HighsSimplexLpStatus \<Rightarrow> LpAction \<Rightarrow> HighsSimplexLpStatus" where
  "update_simplex_lp_status s TRANSPOSE = invalidate_simplex_lp_data (s\<lparr>is_transposed := True\<rparr>)"
| "update_simplex_lp_status s SCALE = invalidate_simplex_lp_data (s\<lparr>is_scaled := True\<rparr>)"
| "update_simplex_lp_status s PERMUTE = invalidate_simplex_lp_data (s\<lparr>is_permuted := True\<rparr>)"
| "update_simplex_lp_status s TIGHTEN = invalidate_simplex_lp_data (s\<lparr>is_tightened := True\<rparr>)"
| "update_simplex_lp_status s NEW_COSTS =
     s\<lparr>has_nonbasic_dual_values := False,
       has_fresh_rebuild := False,
       has_dual_objective_value := False\<rparr>"
| "update_simplex_lp_status s NEW_BOUNDS =
     s\<lparr>has_basic_primal_values := False,
       has_fresh_rebuild := False,
       has_dual_objective_value := False\<rparr>"
| "update_simplex_lp_status s NEW_BASIS = invalidate_simplex_lp_data s"
| "update_simplex_lp_status s NEW_COLS = invalidate_simplex_lp_data s"
| "update_simplex_lp_status s NEW_ROWS = invalidate_simplex_lp_data s"
| "update_simplex_lp_status s DEL_COLS = invalidate_simplex_lp_data s"
| "update_simplex_lp_status s DEL_ROWS = invalidate_simplex_lp_data s"
| "update_simplex_lp_status s DEL_ROWS_BASIS_OK = s"

section \<open>The dual objective value\<close>

text \<open>
  \<^verbatim>\<open>compute_dual_objective_value\<close>: the loop runs over \<^verbatim>\<open>i = 0 .. numTot-1\<close> and adds
  \<^verbatim>\<open>workValue_[i] * workDual_[i]\<close> whenever \<^verbatim>\<open>nonbasicFlag_[i]\<close> is nonzero.
\<close>

definition dual_objective_step ::
  "int list \<Rightarrow> real list \<Rightarrow> real list \<Rightarrow> nat \<Rightarrow> real \<Rightarrow> real" where
  "dual_objective_step flag wv wd i acc =
     (if flag ! i \<noteq> 0 then acc + wv ! i * wd ! i else acc)"

definition compute_dual_objective_value :: "HighsModelObject \<Rightarrow> int \<Rightarrow> HighsModelObject" where
  "compute_dual_objective_value mo phase =
     (let info = simplex_info mo;
          numTot = numCol (simplex_lp mo) + numRow (simplex_lp mo);
          v = fold (dual_objective_step (nonbasicFlag (simplex_basis mo))
                      (workValue info) (workDual info)) [0..<numTot] 0;
          v' = (if phase \<noteq> 1 then v * scale_cost mo - offset (simplex_lp mo) else v)
      in mo\<lparr>simplex_info := info\<lparr>dualObjectiveValue := v'\<rparr>,
            simplex_lp_status := (simplex_lp_status mo)\<lparr>has_dual_objective_value := True\<rparr>\<rparr>)"

section \<open>Basis bookkeeping\<close>

text \<open>
  \<^verbatim>\<open>nonbasic_flag_basic_index_ok\<close>: the value returned when assertions are compiled out
  (with assertions on, the two \<^verbatim>\<open>assert\<close>s stop the program exactly where the function
  would return \<^verbatim>\<open>false\<close>). The first loop counts the variables whose flag is zero; the
  second returns \<^verbatim>\<open>false\<close> at the first row whose basic variable has a nonzero flag.
\<close>

definition count_basic_variables :: "int list \<Rightarrow> nat \<Rightarrow> int" where
  "count_basic_variables flag numTot =
     fold (\<lambda>var n. if flag ! var = 0 then n + 1 else n) [0..<numTot] 0"

definition nonbasic_flag_basic_index_ok :: "HighsLp \<Rightarrow> HighsBasis \<Rightarrow> bool" where
  "nonbasic_flag_basic_index_ok l basis =
     (let numTot = numCol l + numRow l;
          num_basic_variables = count_basic_variables (nonbasicFlag basis) numTot
      in if num_basic_variables \<noteq> int (numRow l) then False
         else list_all (\<lambda>row. nonbasicFlag basis ! (basicIndex basis ! row) = 0)
                [0..<numRow l])"

text \<open>
  \<^verbatim>\<open>setup_num_basic_logicals\<close>: the number of rows whose basic variable is a logical
  (index at least \<^verbatim>\<open>numCol\<close>).
\<close>

definition count_basic_logicals :: "HighsLp \<Rightarrow> HighsBasis \<Rightarrow> int" where
  "count_basic_logicals l basis =
     fold (\<lambda>i n. if basicIndex basis ! i \<ge> numCol l then n + 1 else n) [0..<numRow l] 0"

definition setup_num_basic_logicals :: "HighsModelObject \<Rightarrow> HighsModelObject" where
  "setup_num_basic_logicals mo =
     mo\<lparr>simplex_info := (simplex_info mo)
          \<lparr>num_basic_logicals := count_basic_logicals (simplex_lp mo) (simplex_basis mo)\<rparr>\<rparr>"

text \<open>
  \<^verbatim>\<open>initialise_basic_index\<close>, compiled with assertions. The loop aborts at
  \<^verbatim>\<open>assert(num_basic_variables < simplex_lp.numRow_)\<close> when a further basic variable is
  found with \<^verbatim>\<open>numRow\<close> of them already stored. The last statement is
  \<^verbatim>\<open>assert(num_basic_variables = simplex_lp.numRow_ - 1)\<close>: an assignment, whose value
  \<^verbatim>\<open>numRow - 1\<close> is what the assertion tests against zero.
\<close>

datatype assertion_failure = Basic_count_below_numRow | Final_assertion

fun initialise_basic_index_loop ::
  "int list \<Rightarrow> nat \<Rightarrow> nat list \<Rightarrow> nat list \<Rightarrow> nat \<Rightarrow> assertion_failure + (nat list \<times> nat)" where
  "initialise_basic_index_loop flag nRow [] bi num_basic_variables = Inr (bi, num_basic_variables)"
| "initialise_basic_index_loop flag nRow (var # vars) bi num_basic_variables =
     (if flag ! var = 0 then
        (if num_basic_variables < nRow
         then initialise_basic_index_loop flag nRow vars
                (bi[num_basic_variables := var]) (num_basic_variables + 1)
         else Inl Basic_count_below_numRow)
      else initialise_basic_index_loop flag nRow vars bi num_basic_variables)"

definition final_assertion_value :: "nat \<Rightarrow> nat \<Rightarrow> int" where
  "final_assertion_value num_basic_variables nRow = int nRow - 1"

definition initialise_basic_index :: "HighsModelObject \<Rightarrow> assertion_failure + HighsModelObject" where
  "initialise_basic_index mo =
     (let numTot = numCol (simplex_lp mo) + numRow (simplex_lp mo)
      in case initialise_basic_index_loop (nonbasicFlag (simplex_basis mo))
                (numRow (simplex_lp mo)) [0..<numTot] (basicIndex (simplex_basis mo)) 0 of
           Inl e \<Rightarrow> Inl e
         | Inr (bi, num_basic_variables) \<Rightarrow>
             if final_assertion_value num_basic_variables (numRow (simplex_lp mo)) \<noteq> 0
             then Inr (mo\<lparr>simplex_basis := (simplex_basis mo)\<lparr>basicIndex := bi\<rparr>\<rparr>)
             else Inl Final_assertion)"

section \<open>Pivots and the factor\<close>

text \<open>
  \<^verbatim>\<open>update_pivots\<close>, statement by statement; the timer calls are left out. The vectors
  are indexed as the source indexes them: every theorem below states the ranges.
\<close>

definition update_pivots :: "HighsModelObject \<Rightarrow> nat \<Rightarrow> nat \<Rightarrow> int \<Rightarrow> HighsModelObject" where
  "update_pivots mo columnIn rowOut sourceOut =
     (let l = simplex_lp mo;
          info = simplex_info mo;
          basis = simplex_basis mo;
          columnOut = basicIndex basis ! rowOut;
          basis1 = basis\<lparr>basicIndex := (basicIndex basis)[rowOut := columnIn],
                         nonbasicFlag := (nonbasicFlag basis)[columnIn := 0],
                         nonbasicMove := (nonbasicMove basis)[columnIn := 0]\<rparr>;
          info1 = info\<lparr>baseLower := (baseLower info)[rowOut := workLower info ! columnIn],
                       baseUpper := (baseUpper info)[rowOut := workUpper info ! columnIn]\<rparr>;
          basis2 = basis1\<lparr>nonbasicFlag := (nonbasicFlag basis1)[columnOut := 1]\<rparr>;
          value_move =
            (if workLower info1 ! columnOut = workUpper info1 ! columnOut
             then (workLower info1 ! columnOut, 0)
             else if sourceOut = - 1 then (workLower info1 ! columnOut, 1)
             else (workUpper info1 ! columnOut, - 1));
          info2 = info1\<lparr>workValue := (workValue info1)[columnOut := fst value_move]\<rparr>;
          basis3 = basis2\<lparr>nonbasicMove := (nonbasicMove basis2)[columnOut := snd value_move]\<rparr>;
          nwValue = workValue info2 ! columnOut;
          vrDual = workDual info2 ! columnOut;
          dlDualObjectiveValue = nwValue * vrDual;
          info3 = info2\<lparr>updatedDualObjectiveValue :=
                          updatedDualObjectiveValue info2 + dlDualObjectiveValue,
                        update_count := update_count info2 + 1\<rparr>;
          info4 = (if columnOut < numCol l
                   then info3\<lparr>num_basic_logicals := num_basic_logicals info3 - 1\<rparr> else info3);
          info5 = (if columnIn < numCol l
                   then info4\<lparr>num_basic_logicals := num_basic_logicals info4 + 1\<rparr> else info4)
      in mo\<lparr>simplex_basis := basis3,
            simplex_info := info5,
            simplex_lp_status := (simplex_lp_status mo)
              \<lparr>has_invert := False, has_fresh_invert := False, has_fresh_rebuild := False\<rparr>\<rparr>)"

text \<open>
  \<^verbatim>\<open>compute_factor\<close>. The function \<^verbatim>\<open>handle_rank_deficiency\<close> is inside a comment in the
  source, and so are its call and the statements in the branch taken on rank deficiency:
  the branch is empty. \<open>build\<close> stands for \<^verbatim>\<open>factor.build()\<close>, which reads the LP matrix
  and the basic indices it was set up with. The result is the returned \<^verbatim>\<open>int\<close> and the
  new state.
\<close>

definition compute_factor ::
  "(HighsLp \<Rightarrow> nat list \<Rightarrow> HFactor) \<Rightarrow> HighsModelObject \<Rightarrow> int \<times> HighsModelObject" where
  "compute_factor build mo =
     (let f = build (simplex_lp mo) (basicIndex (simplex_basis mo));
          rank_deficiency = rankDeficiency f;
          mo1 = mo\<lparr>factor := f\<rparr>;
          mo2 = (if rank_deficiency \<noteq> 0 then mo1 else mo1);
          mo3 = mo2\<lparr>simplex_info := (simplex_info mo2)\<lparr>update_count := 0\<rparr>\<rparr>
      in (0, mo3\<lparr>simplex_lp_status := (simplex_lp_status mo3)
                  \<lparr>has_invert := True, has_fresh_invert := True\<rparr>\<rparr>))"

section \<open>Dual correction\<close>

text \<open>
  \<^verbatim>\<open>flip_bound\<close>: the move of the column is negated, and the value is set to the lower
  bound when the new move is 1 and to the upper bound otherwise.
\<close>

definition flip_bound :: "HighsModelObject \<Rightarrow> nat \<Rightarrow> HighsModelObject" where
  "flip_bound mo iCol =
     (let basis = simplex_basis mo;
          info = simplex_info mo;
          move = - (nonbasicMove basis ! iCol)
      in mo\<lparr>simplex_basis := basis\<lparr>nonbasicMove := (nonbasicMove basis)[iCol := move]\<rparr>,
            simplex_info := info\<lparr>workValue := (workValue info)
              [iCol := (if move = 1 then workLower info ! iCol else workUpper info ! iCol)]\<rparr>\<rparr>)"

text \<open>
  \<^verbatim>\<open>random_.fraction()\<close>: the next value of the sequence, and the state after the call.
\<close>

definition random_fraction :: "HighsModelObject \<Rightarrow> real \<times> HighsModelObject" where
  "random_fraction mo =
     (random_fractions mo (random_count mo), mo\<lparr>random_count := random_count mo + 1\<rparr>)"

text \<open>
  The shift of \<^verbatim>\<open>correct_dual\<close>, common to its two branches: the dual of variable \<open>i\<close>
  becomes \<open>dual\<close> and the difference to the old dual is added to \<^verbatim>\<open>workCost_[i]\<close>.
\<close>

definition shift_dual :: "HighsModelObject \<Rightarrow> nat \<Rightarrow> real \<Rightarrow> HighsModelObject" where
  "shift_dual mo i dual =
     (let info = simplex_info mo;
          shift = dual - workDual info ! i;
          info1 = info\<lparr>workDual := (workDual info)[i := dual]\<rparr>
      in mo\<lparr>simplex_info := info1\<lparr>workCost := (workCost info1)[i := workCost info1 ! i + shift]\<rparr>\<rparr>)"

text \<open>
  One iteration of the loop of \<^verbatim>\<open>correct_dual\<close>, on the state and the running
  \<^verbatim>\<open>workCount\<close>; \<open>tau_d\<close> is the tolerance read before the loop.
\<close>

definition correct_dual_step ::
  "real \<Rightarrow> nat \<Rightarrow> HighsModelObject \<times> int \<Rightarrow> HighsModelObject \<times> int" where
  "correct_dual_step tau_d i st =
     (let mo = fst st;
          workCount = snd st;
          basis = simplex_basis mo;
          info = simplex_info mo
      in if nonbasicFlag basis ! i \<noteq> 0 then
           if workLower info ! i = - HIGHS_CONST_INF \<and> workUpper info ! i = HIGHS_CONST_INF
           then (mo, workCount + (if \<bar>workDual info ! i\<bar> \<ge> tau_d then 1 else 0))
           else if of_int (nonbasicMove basis ! i) * workDual info ! i \<le> - tau_d then
             if workLower info ! i \<noteq> - HIGHS_CONST_INF \<and> workUpper info ! i \<noteq> HIGHS_CONST_INF
             then (flip_bound mo i, workCount)
             else
               (let mo1 = mo\<lparr>simplex_info := info\<lparr>costs_perturbed := 1\<rparr>\<rparr> in
                if nonbasicMove basis ! i = 1 then
                  (let random_v = fst (random_fraction mo1);
                       mo2 = snd (random_fraction mo1);
                       dual = (1 + random_v) * tau_d
                   in (shift_dual mo2 i dual, workCount))
                else
                  (let random_v = fst (random_fraction mo1);
                       mo2 = snd (random_fraction mo1);
                       dual = - (1 + random_v) * tau_d
                   in (shift_dual mo2 i dual, workCount)))
           else (mo, workCount)
         else (mo, workCount))"

text \<open>
  \<^verbatim>\<open>correct_dual\<close>: the state after the loop and the value stored in
  \<^verbatim>\<open>*free_infeasibility_count\<close>.
\<close>

definition correct_dual :: "HighsModelObject \<Rightarrow> HighsModelObject \<times> int" where
  "correct_dual mo =
     (let tau_d = dual_feasibility_tolerance (simplex_info mo);
          numTot = numCol (simplex_lp mo) + numRow (simplex_lp mo)
      in fold (correct_dual_step tau_d) [0..<numTot] (mo, 0))"

text \<open>
  What an iteration of the loop of \<^verbatim>\<open>correct_dual\<close> for another variable leaves alone: the
  entries of variable \<open>j\<close>, the sizes of the arrays, and the bounds, shifts, flags and
  random sequence as a whole.
\<close>

definition same_outside :: "nat \<Rightarrow> HighsModelObject \<Rightarrow> HighsModelObject \<Rightarrow> bool" where
  "same_outside j mo mo' \<longleftrightarrow>
     workDual (simplex_info mo') ! j = workDual (simplex_info mo) ! j
   \<and> workCost (simplex_info mo') ! j = workCost (simplex_info mo) ! j
   \<and> workValue (simplex_info mo') ! j = workValue (simplex_info mo) ! j
   \<and> nonbasicMove (simplex_basis mo') ! j = nonbasicMove (simplex_basis mo) ! j
   \<and> length (workDual (simplex_info mo')) = length (workDual (simplex_info mo))
   \<and> length (workCost (simplex_info mo')) = length (workCost (simplex_info mo))
   \<and> length (workValue (simplex_info mo')) = length (workValue (simplex_info mo))
   \<and> length (nonbasicMove (simplex_basis mo')) = length (nonbasicMove (simplex_basis mo))
   \<and> workLower (simplex_info mo') = workLower (simplex_info mo)
   \<and> workUpper (simplex_info mo') = workUpper (simplex_info mo)
   \<and> workShift (simplex_info mo') = workShift (simplex_info mo)
   \<and> nonbasicFlag (simplex_basis mo') = nonbasicFlag (simplex_basis mo)
   \<and> random_fractions mo' = random_fractions mo"

section \<open>Costs and their perturbation\<close>

text \<open>
  \<^verbatim>\<open>initialise_phase2_col_cost\<close> and \<^verbatim>\<open>initialise_phase2_row_cost\<close>: each loop runs from the
  first to the last index inclusive; the last index is \<^verbatim>\<open>numCol - 1\<close> or \<^verbatim>\<open>numRow - 1\<close> at
  the call, which is \<open>-1\<close> for an empty range, hence an \<^typ>\<open>int\<close>.
\<close>

definition phase2_col_cost_step :: "HighsLp \<Rightarrow> nat \<Rightarrow> HighsSimplexInfo \<Rightarrow> HighsSimplexInfo" where
  "phase2_col_cost_step l col info =
     (let var = col
      in info\<lparr>workCost := (workCost info)[var := of_int (sense l) * colCost l ! col],
              workShift := (workShift info)[var := 0]\<rparr>)"

definition initialise_phase2_col_cost :: "HighsModelObject \<Rightarrow> nat \<Rightarrow> int \<Rightarrow> HighsModelObject" where
  "initialise_phase2_col_cost mo firstcol lastcol =
     mo\<lparr>simplex_info := fold (phase2_col_cost_step (simplex_lp mo))
                            [firstcol..<nat (lastcol + 1)] (simplex_info mo)\<rparr>"

definition phase2_row_cost_step :: "HighsLp \<Rightarrow> nat \<Rightarrow> HighsSimplexInfo \<Rightarrow> HighsSimplexInfo" where
  "phase2_row_cost_step l row info =
     (let var = numCol l + row
      in info\<lparr>workCost := (workCost info)[var := 0],
              workShift := (workShift info)[var := 0]\<rparr>)"

definition initialise_phase2_row_cost :: "HighsModelObject \<Rightarrow> nat \<Rightarrow> int \<Rightarrow> HighsModelObject" where
  "initialise_phase2_row_cost mo firstrow lastrow =
     mo\<lparr>simplex_info := fold (phase2_row_cost_step (simplex_lp mo))
                            [firstrow..<nat (lastrow + 1)] (simplex_info mo)\<rparr>"

text \<open>
  The value of \<^verbatim>\<open>bigc\<close> in \<^verbatim>\<open>initialise_cost\<close>, from the copied costs \<open>wc\<close> and the work
  ranges \<open>wr\<close>: the largest absolute cost of a column, replaced by its fourth root when above 100, and
  capped at 1 when fewer than one in a hundred of the work ranges are below \<^verbatim>\<open>1e30\<close>.
  The rate is the quotient of two doubles: with no variable at all it is \<open>0 / 0\<close>, not a
  number, and the comparison \<^verbatim>\<open>boxedRate < 0.01\<close> is false.
\<close>

definition perturbation_bigc :: "HighsLp \<Rightarrow> real list \<Rightarrow> real list \<Rightarrow> real" where
  "perturbation_bigc l wc wr =
     (let bigc = fold (\<lambda>i b. max b \<bar>wc ! i\<bar>) [0..<numCol l] 0;
          bigc1 = (if bigc > 100 then sqrt (sqrt bigc) else bigc);
          numTot = numCol l + numRow l;
          boxedCount = fold (\<lambda>i r. r + (if wr ! i < 10 ^ 30 then 1 else 0))
                         [0..<numTot] (0 :: real)
      in if numTot \<noteq> 0 \<and> boxedCount / real numTot < 1 / 100 then min bigc1 1 else bigc1)"

text \<open>
  One iteration of the first and of the second perturbation loop, on \<^verbatim>\<open>workCost_\<close>: the case
  distinction on the bounds of column \<open>i\<close>, in the order of the source, and the
  perturbation of the cost of a logical.
\<close>

definition perturb_col_step :: "HighsLp \<Rightarrow> real list \<Rightarrow> real \<Rightarrow> nat \<Rightarrow> real list \<Rightarrow> real list" where
  "perturb_col_step l rv base i wc =
     (let lower = colLower l ! i;
          upper = colUpper l ! i;
          xpert = (\<bar>wc ! i\<bar> + 1) * base * (1 + rv ! i)
      in if lower = - HIGHS_CONST_INF \<and> upper = HIGHS_CONST_INF then wc
         else if upper = HIGHS_CONST_INF then wc[i := wc ! i + xpert]
         else if lower = - HIGHS_CONST_INF then wc[i := wc ! i + - xpert]
         else if lower \<noteq> upper then wc[i := wc ! i + (if wc ! i \<ge> 0 then xpert else - xpert)]
         else wc)"

definition perturb_row_step :: "real list \<Rightarrow> nat \<Rightarrow> real list \<Rightarrow> real list" where
  "perturb_row_step rv i wc = wc[i := wc ! i + (1 / 2 - rv ! i) * (1 / 10 ^ 12)]"

definition initialise_cost :: "HighsModelObject \<Rightarrow> int \<Rightarrow> HighsModelObject" where
  "initialise_cost mo perturb =
     (let l = simplex_lp mo;
          mo1 = initialise_phase2_col_cost mo 0 (int (numCol l) - 1);
          mo2 = initialise_phase2_row_cost mo1 0 (int (numRow l) - 1);
          info = (simplex_info mo2)\<lparr>costs_perturbed := 0\<rparr>
      in if perturb = 0 \<or> perturb_costs info = 0 then mo2\<lparr>simplex_info := info\<rparr>
         else
           (let info1 = info\<lparr>costs_perturbed := 1\<rparr>;
                bigc = perturbation_bigc l (workCost info1) (workRange info1);
                base = 5 / 10 ^ 7 * bigc;
                numTot = numCol l + numRow l;
                wc1 = fold (perturb_col_step l (numTotRandomValue info1) base)
                        [0..<numCol l] (workCost info1);
                wc2 = fold (perturb_row_step (numTotRandomValue info1)) [numCol l..<numTot] wc1
            in mo2\<lparr>simplex_info := info1\<lparr>workCost := wc2\<rparr>\<rparr>))"

section \<open>The row-wise copy of the matrix\<close>

text \<open>
  \<^verbatim>\<open>transpose_simplex_lp\<close> and \<^verbatim>\<open>tighten_simplex_lp\<close> build the row-wise copy of the
  column-wise matrix with the same four steps, a loop each: count the entries of each row in
  \<^verbatim>\<open>iwork\<close>, accumulate the row starts, reset \<^verbatim>\<open>iwork\<close> to the row starts, and put every
  entry of every column at the next free position of its row. The vectors are created
  filled with zeros.
\<close>

definition row_wise_put ::
  "nat list \<Rightarrow> real list \<Rightarrow> nat \<Rightarrow> nat \<Rightarrow> nat list \<times> nat list \<times> real list
     \<Rightarrow> nat list \<times> nat list \<times> real list" where
  "row_wise_put Aind Aval iCol k st =
     (case st of (iwork, ARindex, ARvalue) \<Rightarrow>
        (let iRow = Aind ! k;
             iPut = iwork ! iRow
         in (iwork[iRow := iPut + 1], ARindex[iPut := iCol], ARvalue[iPut := Aval ! k])))"

definition row_wise_copy ::
  "nat \<Rightarrow> nat \<Rightarrow> nat list \<Rightarrow> nat list \<Rightarrow> real list \<Rightarrow> nat list \<times> nat list \<times> real list" where
  "row_wise_copy nCol nRow Ast Aind Aval =
     (let iwork0 = replicate nRow (0 :: nat);
          ARstart0 = replicate (nRow + 1) (0 :: nat);
          AcountX = length Aind;
          ARindex0 = replicate AcountX (0 :: nat);
          ARvalue0 = replicate AcountX (0 :: real);
          iwork1 = fold (\<lambda>k iw. iw[Aind ! k := iw ! (Aind ! k) + 1]) [0..<AcountX] iwork0;
          ARstart1 = fold (\<lambda>i st. st[i := st ! (i - 1) + iwork1 ! (i - 1)]) [1..<nRow + 1] ARstart0;
          iwork2 = fold (\<lambda>i iw. iw[i := ARstart1 ! i]) [0..<nRow] iwork1;
          filled = fold (\<lambda>iCol st. fold (row_wise_put Aind Aval iCol)
                                      [Ast ! iCol..<Ast ! (iCol + 1)] st)
                     [0..<nCol] (iwork2, ARindex0, ARvalue0)
      in (ARstart1, fst (snd filled), snd (snd filled)))"

section \<open>Tightening of the column bounds\<close>

text \<open>
  The first inner loop of \<^verbatim>\<open>tighten_simplex_lp\<close> for a row: the possible upper and lower
  range of the row activity from the finite column bounds, and the numbers of infinite
  contributions. The state is \<open>(ninfU, ninfL, xmaxU, xminL)\<close>; \<^verbatim>\<open>big_B\<close> is \<open>1e10\<close>.
\<close>

definition big_B :: real where
  "big_B = 10 ^ 10"

definition row_range_step ::
  "nat list \<Rightarrow> real list \<Rightarrow> real list \<Rightarrow> real list \<Rightarrow> nat
     \<Rightarrow> int \<times> int \<times> real \<times> real \<Rightarrow> int \<times> int \<times> real \<times> real" where
  "row_range_step ARindex ARvalue cl cu k st =
     (case st of (ninfU, ninfL, xmaxU, xminL) \<Rightarrow>
        (let iCol = ARindex ! k;
             value0 = ARvalue ! k;
             upper = (if value0 > 0 then cu ! iCol else - (cl ! iCol));
             lower = (if value0 > 0 then cl ! iCol else - (cu ! iCol));
             value = \<bar>value0\<bar>;
             xmaxU1 = (if upper < big_B then xmaxU + upper * value else xmaxU);
             ninfU1 = (if upper < big_B then ninfU else ninfU + 1);
             xminL1 = (if lower > - big_B then xminL + lower * value else xminL);
             ninfL1 = (if lower > - big_B then ninfL else ninfL + 1)
         in (ninfU1, ninfL1, xmaxU1, xminL1)))"

text \<open>
  The second inner loop for a row: the bounds that the row implies for the column of
  entry \<open>k\<close>, and the two updates. A new upper bound is never put below the current lower
  bound \<^verbatim>\<open>col_L\<close>, a new lower bound never above the current upper bound \<^verbatim>\<open>col_U\<close>, both
  read before the updates. The state is the pair of bound vectors and
  \<^verbatim>\<open>numberChanged\<close>. (The quotient by a stored entry of value 0 is a division of doubles
  by zero in the source and is 0 here; a matrix stores nonzero entries.)
\<close>

definition tighten_col_step ::
  "nat list \<Rightarrow> real list \<Rightarrow> real \<Rightarrow> real \<Rightarrow> int \<Rightarrow> int \<Rightarrow> real \<Rightarrow> real \<Rightarrow> real \<Rightarrow> real \<Rightarrow> nat
     \<Rightarrow> real list \<times> real list \<times> int \<Rightarrow> real list \<times> real list \<times> int" where
  "tighten_col_step ARindex ARvalue row_L row_U ninfU ninfL xmaxU xminL xmaxUmargin xminLmargin k st =
     (case st of (cl, cu, numberChanged) \<Rightarrow>
        (let value = ARvalue ! k;
             iCol = ARindex ! k;
             col_L = cl ! iCol;
             col_U = cu ! iCol;
             new_L =
               (if value > 0 then
                  (if row_L > - big_B \<and> ninfU \<le> 1 \<and> (ninfU = 0 \<or> col_U > big_B)
                   then (row_L - xmaxU) / value + of_int (1 - ninfU) * col_U - xmaxUmargin
                   else - HIGHS_CONST_INF)
                else
                  (if row_U < big_B \<and> ninfL \<le> 1 \<and> (ninfL = 0 \<or> col_U > big_B)
                   then (row_U - xminL) / value + of_int (1 - ninfL) * col_U - xminLmargin
                   else - HIGHS_CONST_INF));
             new_U =
               (if value > 0 then
                  (if row_U < big_B \<and> ninfL \<le> 1 \<and> (ninfL = 0 \<or> col_L < - big_B)
                   then (row_U - xminL) / value + of_int (1 - ninfL) * col_L + xminLmargin
                   else HIGHS_CONST_INF)
                else
                  (if row_L > - big_B \<and> ninfU \<le> 1 \<and> (ninfU = 0 \<or> col_L < - big_B)
                   then (row_L - xmaxU) / value + of_int (1 - ninfU) * col_L + xmaxUmargin
                   else HIGHS_CONST_INF));
             upd_U = (new_U < col_U - 1 / 10 ^ 12 \<and> new_U < big_B);
             cu1 = (if upd_U then cu[iCol := max new_U col_L] else cu);
             changed1 = (if upd_U then numberChanged + 1 else numberChanged);
             upd_L = (new_L > col_L + 1 / 10 ^ 12 \<and> new_L > - big_B);
             cl1 = (if upd_L then cl[iCol := min new_L col_U] else cl);
             changed2 = (if upd_L then changed1 + 1 else changed1)
         in (cl1, cu1, changed2)))"

text \<open>
  The body of the loop over the rows: free rows and redundant rows are skipped.
\<close>

definition tighten_row ::
  "nat list \<Rightarrow> nat list \<Rightarrow> real list \<Rightarrow> real list \<Rightarrow> real list \<Rightarrow> nat
     \<Rightarrow> real list \<times> real list \<times> int \<Rightarrow> real list \<times> real list \<times> int" where
  "tighten_row ARstart ARindex ARvalue rl ru iRow st =
     (case st of (cl, cu, numberChanged) \<Rightarrow>
        if rl ! iRow < - big_B \<and> ru ! iRow > big_B then st
        else
          (let myStart = ARstart ! iRow;
               myEnd = ARstart ! (iRow + 1);
               ranges = fold (row_range_step ARindex ARvalue cl cu) [myStart..<myEnd] (0, 0, 0, 0);
               ninfU = fst ranges;
               ninfL = fst (snd ranges);
               xmaxU = fst (snd (snd ranges)) + 1 / 10 ^ 8 * \<bar>fst (snd (snd ranges))\<bar>;
               xminL = snd (snd (snd ranges)) - 1 / 10 ^ 8 * \<bar>snd (snd (snd ranges))\<bar>;
               xminLmargin = (if \<bar>xminL\<bar> > 10 ^ 8 then 1 / 10 ^ 12 * \<bar>xminL\<bar> else 0);
               xmaxUmargin = (if \<bar>xmaxU\<bar> > 10 ^ 8 then 1 / 10 ^ 12 * \<bar>xmaxU\<bar> else 0);
               comp_U = xmaxU + of_int ninfU * 10 ^ 31;
               comp_L = xminL - of_int ninfL * 10 ^ 31
           in if comp_U \<le> ru ! iRow + 1 / 10 ^ 7 \<and> comp_L \<ge> rl ! iRow - 1 / 10 ^ 7 then st
              else
                (let row_L = rl ! iRow;
                     row_U = ru ! iRow
                 in fold (tighten_col_step ARindex ARvalue row_L row_U ninfU ninfL xmaxU xminL
                            xmaxUmargin xminLmargin) [myStart..<myEnd] st)))"

text \<open>
  The loop \<^verbatim>\<open>for (;;)\<close> over the passes: it stops after a pass that changed nothing, and
  after the pass that makes \<^verbatim>\<open>iPass\<close> exceed 10.
\<close>

function tighten_passes ::
  "nat \<Rightarrow> nat list \<Rightarrow> nat list \<Rightarrow> real list \<Rightarrow> real list \<Rightarrow> real list \<Rightarrow> nat
     \<Rightarrow> real list \<times> real list \<Rightarrow> real list \<times> real list" where
  "tighten_passes nRow ARstart ARindex ARvalue rl ru iPass bounds =
     (let after = fold (tighten_row ARstart ARindex ARvalue rl ru) [0..<nRow]
                    (fst bounds, snd bounds, 0);
          bounds1 = (fst after, fst (snd after));
          numberChanged = snd (snd after)
      in if numberChanged = 0 then bounds1
         else if iPass + 1 > 10 then bounds1
         else tighten_passes nRow ARstart ARindex ARvalue rl ru (iPass + 1) bounds1)"
  by pat_completeness auto
termination
  by (relation "measure (\<lambda>(nRow, ARstart, ARindex, ARvalue, rl, ru, iPass, bounds). 11 - iPass)")
     auto

declare tighten_passes.simps [simp del]

text \<open>
  The final loop over the columns: a column whose original interval is wider than
  \<^verbatim>\<open>useTolerance = 1e-3\<close> is relaxed by \<^verbatim>\<open>relax = 100 * useTolerance\<close>, against its saved
  bounds \<^verbatim>\<open>colLower_0\<close> and \<^verbatim>\<open>colUpper_0\<close>.
\<close>

definition relax_step ::
  "real list \<Rightarrow> real list \<Rightarrow> nat \<Rightarrow> real list \<times> real list \<Rightarrow> real list \<times> real list" where
  "relax_step colLower_0 colUpper_0 iCol bounds =
     (case bounds of (cl, cu) \<Rightarrow>
        (let useTolerance = 1 / 10 ^ 3 in
         if colUpper_0 ! iCol > colLower_0 ! iCol + useTolerance then
           (let relax = 100 * useTolerance in
            if cu ! iCol - cl ! iCol < useTolerance + 1 / 10 ^ 8 then
              (let cl1 = cl[iCol := max (colLower_0 ! iCol) (cl ! iCol - relax)];
                   cu1 = cu[iCol := min (colUpper_0 ! iCol) (cu ! iCol + relax)]
               in (cl1, cu1))
            else
              (let cu1 = (if cu ! iCol < colUpper_0 ! iCol
                          then cu[iCol := min (cu ! iCol + relax) (colUpper_0 ! iCol)] else cu);
                   cl1 = (if cl ! iCol > colLower_0 ! iCol
                          then cl[iCol := min (cl ! iCol - relax) (colLower_0 ! iCol)] else cl)
               in (cl1, cu1)))
         else (cl, cu)))"

text \<open>
  \<^verbatim>\<open>tighten_simplex_lp\<close>. Its last statement sets \<^verbatim>\<open>is_tightened\<close> in the status directly;
  \<^verbatim>\<open>update_simplex_lp_status\<close> is not called.
\<close>

definition tighten_simplex_lp :: "HighsModelObject \<Rightarrow> HighsModelObject" where
  "tighten_simplex_lp mo =
     (if is_tightened (simplex_lp_status mo) then mo
      else
        (let l = simplex_lp mo;
             rw = row_wise_copy (numCol l) (numRow l) (Astart l) (Aindex l) (Avalue l);
             ARstart = fst rw;
             ARindex = fst (snd rw);
             ARvalue = snd (snd rw);
             colLower_0 = colLower l;
             colUpper_0 = colUpper l;
             tightened = tighten_passes (numRow l) ARstart ARindex ARvalue (rowLower l) (rowUpper l)
                           0 (colLower l, colUpper l);
             relaxed = fold (relax_step colLower_0 colUpper_0) [0..<numCol l] tightened
         in mo\<lparr>simplex_lp := l\<lparr>colLower := fst relaxed, colUpper := snd relaxed\<rparr>,
               simplex_lp_status := (simplex_lp_status mo)\<lparr>is_tightened := True\<rparr>\<rparr>))"

section \<open>Transposition\<close>

text \<open>
  The test \<^verbatim>\<open>1.0 * primalNumCol / primalNumRow > 0.2\<close> divides two doubles. With no row
  the quotient is plus infinity for a positive number of columns and not a number for
  \<open>0 / 0\<close>; every comparison with not a number is false. For dimensions that fit an
  \<^verbatim>\<open>int\<close> the rounding of the quotient and of the constant \<open>0.2\<close> does not change the
  outcome of the comparison, since a quotient other than \<open>1/5\<close> differs from it by at least
  \<open>1 / (5 * 2^31)\<close>.
\<close>

datatype quotient = Quotient real | Plus_infinity | Not_a_number

definition int_quotient :: "nat \<Rightarrow> nat \<Rightarrow> quotient" where
  "int_quotient m n =
     (if n \<noteq> 0 then Quotient (real m / real n)
      else if m \<noteq> 0 then Plus_infinity else Not_a_number)"

fun quotient_gt :: "quotient \<Rightarrow> real \<Rightarrow> bool" where
  "quotient_gt (Quotient q) c = (q > c)"
| "quotient_gt Plus_infinity c = True"
| "quotient_gt Not_a_number c = False"

fun quotient_le :: "quotient \<Rightarrow> real \<Rightarrow> bool" where
  "quotient_le (Quotient q) c = (q \<le> c)"
| "quotient_le Plus_infinity c = False"
| "quotient_le Not_a_number c = False"

text \<open>
  The bounds of the dual row of a primal column with the bounds \<open>lower\<close>, \<open>upper\<close> and the
  cost \<open>cost\<close>, in the order of the source; \<open>None\<close> is \<^verbatim>\<open>transposeCancelled = 1\<close>.
\<close>

definition dual_row_of_col :: "real \<Rightarrow> real \<Rightarrow> real \<Rightarrow> (real \<times> real) option" where
  "dual_row_of_col lower upper cost =
     (if lower = - HIGHS_CONST_INF \<and> upper = HIGHS_CONST_INF then Some (cost, cost)
      else if lower = 0 \<and> upper = HIGHS_CONST_INF then Some (- HIGHS_CONST_INF, cost)
      else if lower = - HIGHS_CONST_INF \<and> upper = 0 then Some (cost, HIGHS_CONST_INF)
      else if lower = 0 \<and> upper = 0 then Some (- HIGHS_CONST_INF, HIGHS_CONST_INF)
      else None)"

text \<open>
  The bounds \<open>(lower, upper)\<close> and the cost of the dual column of a primal row.
\<close>

definition dual_col_of_row :: "real \<Rightarrow> real \<Rightarrow> (real \<times> real \<times> real) option" where
  "dual_col_of_row lower upper =
     (if lower = upper then Some (- HIGHS_CONST_INF, HIGHS_CONST_INF, - lower)
      else if lower = - HIGHS_CONST_INF \<and> upper \<noteq> HIGHS_CONST_INF
        then Some (- HIGHS_CONST_INF, 0, - upper)
      else if lower \<noteq> - HIGHS_CONST_INF \<and> upper = HIGHS_CONST_INF
        then Some (0, HIGHS_CONST_INF, - lower)
      else if lower = - HIGHS_CONST_INF \<and> upper = HIGHS_CONST_INF then Some (0, 0, 0)
      else None)"

text \<open>
  The conversion loop over the columns and the one over the rows; each leaves at the first
  column or row that cancels.
\<close>

fun dual_rows :: "HighsLp \<Rightarrow> nat list \<Rightarrow> real list \<times> real list \<Rightarrow> (real list \<times> real list) option" where
  "dual_rows l [] st = Some st"
| "dual_rows l (j # js) st =
     (case dual_row_of_col (colLower l ! j) (colUpper l ! j) (colCost l ! j) of
        None \<Rightarrow> None
      | Some (lo, up) \<Rightarrow> dual_rows l js ((fst st)[j := lo], (snd st)[j := up]))"

fun dual_cols ::
  "HighsLp \<Rightarrow> nat list \<Rightarrow> real list \<times> real list \<times> real list
     \<Rightarrow> (real list \<times> real list \<times> real list) option" where
  "dual_cols l [] st = Some st"
| "dual_cols l (i # is) st =
     (case dual_col_of_row (rowLower l ! i) (rowUpper l ! i) of
        None \<Rightarrow> None
      | Some (lo, up, cost) \<Rightarrow>
          dual_cols l is ((fst st)[i := lo], (fst (snd st))[i := up], (snd (snd st))[i := cost]))"

text \<open>
  \<^verbatim>\<open>transpose_simplex_lp\<close> reads the original LP \<^verbatim>\<open>lp_\<close> and writes the LP of the simplex
  solver \<^verbatim>\<open>simplex_lp_\<close>. The swap of the dimensions is a swap of the two local variables.
\<close>

definition transpose_simplex_lp :: "HighsModelObject \<Rightarrow> HighsModelObject" where
  "transpose_simplex_lp mo =
     (if is_transposed (simplex_lp_status mo) then mo
      else
        (let primal_lp = lp mo;
             primalNumCol = numCol primal_lp;
             primalNumRow = numRow primal_lp
         in if quotient_gt (int_quotient primalNumCol primalNumRow) (2 / 10) then mo
            else
              (case dual_rows primal_lp [0..<primalNumCol]
                      (replicate primalNumCol 0, replicate primalNumCol 0) of
                 None \<Rightarrow> mo
               | Some (dualRowLower, dualRowUpper) \<Rightarrow>
                   (case dual_cols primal_lp [0..<primalNumRow]
                           (replicate primalNumRow 0, replicate primalNumRow 0,
                            replicate primalNumRow 0) of
                      None \<Rightarrow> mo
                    | Some (dualColLower, dualColUpper, dualCost) \<Rightarrow>
                        (let rw = row_wise_copy primalNumCol primalNumRow (Astart primal_lp)
                                    (Aindex primal_lp) (Avalue primal_lp);
                             dual_lp = (simplex_lp mo)
                               \<lparr>Astart := fst rw,
                                Aindex := fst (snd rw),
                                Avalue := snd (snd rw),
                                colLower := dualColLower,
                                colUpper := dualColUpper,
                                rowLower := dualRowLower,
                                rowUpper := dualRowUpper,
                                colCost := dualCost\<rparr>
                         in mo\<lparr>simplex_lp := dual_lp,
                               simplex_lp_status :=
                                 update_simplex_lp_status (simplex_lp_status mo) TRANSPOSE\<rparr>)))))"

section \<open>Concrete states\<close>

text \<open>
  The empty model object, from which the concrete inputs of the examples below are
  obtained by setting the fields that matter.
\<close>

definition empty_lp :: HighsLp where
  "empty_lp = \<lparr>numCol = 0, numRow = 0, Astart = [0], Aindex = [], Avalue = [],
     colCost = [], colLower = [], colUpper = [], rowLower = [], rowUpper = [],
     sense = 1, offset = 0\<rparr>"

definition empty_basis :: HighsBasis where
  "empty_basis = \<lparr>basicIndex = [], nonbasicFlag = [], nonbasicMove = []\<rparr>"

definition empty_info :: HighsSimplexInfo where
  "empty_info = \<lparr>workCost = [], workDual = [], workShift = [], workLower = [],
     workUpper = [], workRange = [], workValue = [], baseLower = [], baseUpper = [],
     baseValue = [], numTotRandomValue = [], perturb_costs = 1, costs_perturbed = 0,
     dual_feasibility_tolerance = 1 / 10 ^ 7, dualObjectiveValue = 0,
     updatedDualObjectiveValue = 0, update_count = 0, num_basic_logicals = 0\<rparr>"

definition empty_status :: HighsSimplexLpStatus where
  "empty_status = \<lparr>valid = False, is_transposed = False, is_scaled = False,
     is_permuted = False, is_tightened = False, has_basis = False,
     has_matrix_col_wise = False, has_matrix_row_wise = False, has_factor_arrays = False,
     has_dual_steepest_edge_weights = False, has_nonbasic_dual_values = False,
     has_basic_primal_values = False, has_invert = False, has_fresh_invert = False,
     has_fresh_rebuild = False, has_dual_objective_value = False\<rparr>"

definition empty_model :: HighsModelObject where
  "empty_model = \<lparr>lp = empty_lp, simplex_lp = empty_lp, simplex_basis = empty_basis,
     simplex_info = empty_info, simplex_lp_status = empty_status, scale_cost = 1,
     factor = \<lparr>rankDeficiency = 0, noPvC = [], noPvR = []\<rparr>,
     random_fractions = (\<lambda>k. 0), random_count = 0\<rparr>"

definition dual_objective_example :: HighsModelObject where
  "dual_objective_example = empty_model
     \<lparr>simplex_lp := empty_lp\<lparr>numCol := 1, numRow := 1, offset := 1\<rparr>,
      simplex_basis := empty_basis\<lparr>basicIndex := [1], nonbasicFlag := [1, 0]\<rparr>,
      simplex_info := empty_info\<lparr>workValue := [2, 3], workDual := [5, 7]\<rparr>,
      scale_cost := 4\<rparr>"

text \<open>
  One structural column and \<open>nRow\<close> rows, with the first logical as the only basic
  variable.
\<close>

definition basic_index_example :: "nat \<Rightarrow> HighsModelObject" where
  "basic_index_example nRow = empty_model
     \<lparr>simplex_lp := empty_lp\<lparr>numCol := 1, numRow := nRow\<rparr>,
      simplex_basis := empty_basis\<lparr>basicIndex := replicate nRow 0,
                                   nonbasicFlag := 1 # 0 # replicate (nRow - 1) 1\<rparr>\<rparr>"

text \<open>
  One structural column and two rows; both rows name variable 0 as their basic variable,
  variables 0 and 1 are flagged basic and variable 2 nonbasic.
\<close>

definition duplicate_basic_index_example :: HighsModelObject where
  "duplicate_basic_index_example = empty_model
     \<lparr>simplex_lp := empty_lp\<lparr>numCol := 1, numRow := 2\<rparr>,
      simplex_basis := \<lparr>basicIndex = [0, 0], nonbasicFlag = [0, 0, 1], nonbasicMove = [0, 0, 1]\<rparr>,
      simplex_info := empty_info\<lparr>workLower := [0, 0, 0], workUpper := [1, 1, 1],
        workValue := [0, 0, 0], workDual := [0, 0, 0], baseLower := [0, 0], baseUpper := [1, 1]\<rparr>\<rparr>"

text \<open>
  One structural column and one row with the logical basis, \<^verbatim>\<open>num_basic_logicals\<close> as
  \<^verbatim>\<open>setup_num_basic_logicals\<close> counts it.
\<close>

definition pivot_example :: HighsModelObject where
  "pivot_example = setup_num_basic_logicals (empty_model
     \<lparr>simplex_lp := empty_lp\<lparr>numCol := 1, numRow := 1\<rparr>,
      simplex_basis := \<lparr>basicIndex = [1], nonbasicFlag = [1, 0], nonbasicMove = [1, 0]\<rparr>,
      simplex_info := empty_info\<lparr>workLower := [0, 0], workUpper := [1, 1],
        workValue := [0, 0], workDual := [0, 0], baseLower := [0], baseUpper := [1]\<rparr>\<rparr>)"

text \<open>
  One row and one structural column without any matrix entry, which is the basic
  variable: the basis matrix is the 1 by 1 zero matrix. \<open>singular_build\<close> is what
  \<^verbatim>\<open>factor.build()\<close> reports there: rank deficiency 1, no pivot in column 0 and row 0.
\<close>

definition singular_example :: HighsModelObject where
  "singular_example = empty_model
     \<lparr>simplex_lp := empty_lp\<lparr>numCol := 1, numRow := 1, Astart := [0, 0], colCost := [1],
        colLower := [0], colUpper := [1], rowLower := [0], rowUpper := [1]\<rparr>,
      simplex_basis := \<lparr>basicIndex = [0], nonbasicFlag = [0, 1], nonbasicMove = [0, 1]\<rparr>\<rparr>"

definition singular_build :: "HighsLp \<Rightarrow> nat list \<Rightarrow> HFactor" where
  "singular_build l bi = \<lparr>rankDeficiency = 1, noPvC = [0], noPvR = [0]\<rparr>"

text \<open>
  Two nonbasic columns at their lower bounds with dual \<open>-1\<close>: the first has the bounds
  \<open>[0, INF)\<close>, the second is boxed in \<open>[0, 1]\<close>; every random fraction is \<open>1/2\<close>.
\<close>

definition correct_dual_example :: HighsModelObject where
  "correct_dual_example = empty_model
     \<lparr>simplex_lp := empty_lp\<lparr>numCol := 2, numRow := 0\<rparr>,
      simplex_basis := \<lparr>basicIndex = [], nonbasicFlag = [1, 1], nonbasicMove = [1, 1]\<rparr>,
      simplex_info := empty_info\<lparr>workLower := [0, 0], workUpper := [HIGHS_CONST_INF, 1],
        workValue := [0, 0], workDual := [- 1, - 1], workCost := [3, 4], workShift := [0, 0]\<rparr>,
      random_fractions := (\<lambda>k. 1 / 2)\<rparr>"

text \<open>
  Three columns, with the bounds \<open>[0, INF)\<close>, \<open>[0, 1]\<close> and \<open>[3, 3]\<close> and the costs 1, \<open>-2\<close>
  and 1, and one row; the random values are \<open>1/2\<close> for the columns and \<open>1/4\<close> for the
  logical.
\<close>

definition cost_example :: HighsModelObject where
  "cost_example = empty_model
     \<lparr>simplex_lp := empty_lp\<lparr>numCol := 3, numRow := 1, colCost := [1, - 2, 1],
        colLower := [0, 0, 3], colUpper := [HIGHS_CONST_INF, 1, 3]\<rparr>,
      simplex_info := empty_info\<lparr>workCost := [0, 0, 0, 0], workShift := [0, 0, 0, 0],
        workRange := [1, 1, 1, 1], numTotRandomValue := [1 / 2, 1 / 2, 1 / 2, 1 / 4]\<rparr>\<rparr>"

text \<open>
  One column with the bounds \<open>[0, 10]\<close> and one row \<open>x \<ge> 0.05\<close>, with every derived
  validity bit of the status set.
\<close>

definition tighten_example :: HighsModelObject where
  "tighten_example = empty_model
     \<lparr>simplex_lp := empty_lp\<lparr>numCol := 1, numRow := 1, Astart := [0, 1], Aindex := [0],
        Avalue := [1], colCost := [1], colLower := [0], colUpper := [10],
        rowLower := [5 / 100], rowUpper := [HIGHS_CONST_INF]\<rparr>,
      simplex_lp_status := empty_status\<lparr>valid := True, has_basis := True,
        has_matrix_col_wise := True, has_matrix_row_wise := True,
        has_dual_steepest_edge_weights := True, has_nonbasic_dual_values := True,
        has_basic_primal_values := True, has_invert := True, has_fresh_invert := True,
        has_fresh_rebuild := True, has_dual_objective_value := True\<rparr>\<rparr>"

text \<open>
  One free column with cost 1 and five rows \<open>x = 2\<close>, as both the original and the simplex
  LP.
\<close>

definition transpose_example :: HighsModelObject where
  "transpose_example = empty_model
     \<lparr>lp := empty_lp\<lparr>numCol := 1, numRow := 5, Astart := [0, 5], Aindex := [0, 1, 2, 3, 4],
        Avalue := [1, 1, 1, 1, 1], colCost := [1], colLower := [- HIGHS_CONST_INF],
        colUpper := [HIGHS_CONST_INF], rowLower := [2, 2, 2, 2, 2], rowUpper := [2, 2, 2, 2, 2]\<rparr>,
      simplex_lp := empty_lp\<lparr>numCol := 1, numRow := 5, Astart := [0, 5], Aindex := [0, 1, 2, 3, 4],
        Avalue := [1, 1, 1, 1, 1], colCost := [1], colLower := [- HIGHS_CONST_INF],
        colUpper := [HIGHS_CONST_INF], rowLower := [2, 2, 2, 2, 2], rowUpper := [2, 2, 2, 2, 2]\<rparr>\<rparr>"

section \<open>Auxiliary facts\<close>

lemmas empty_defs = empty_model_def empty_lp_def empty_basis_def empty_info_def empty_status_def

lemma fold_dual_objective_step:
  assumes "\<forall>i<n. flag ! i = 0 \<or> flag ! i = 1"
  shows "fold (dual_objective_step flag wv wd) [0..<n] a =
         a + (\<Sum>v | v < n \<and> flag ! v = 1. wv ! v * wd ! v)"
  using assms
proof (induction n)
  case 0
  then show ?case by simp
next
  case (Suc n)
  have split: "{v. v < Suc n \<and> flag ! v = 1} =
      (if flag ! n = 1 then insert n {v. v < n \<and> flag ! v = 1} else {v. v < n \<and> flag ! v = 1})"
    by (auto simp: less_Suc_eq)
  have fin: "finite {v. v < n \<and> flag ! v = 1}" by simp
  have notin: "n \<notin> {v. v < n \<and> flag ! v = 1}" by simp
  from Suc.prems have ih: "fold (dual_objective_step flag wv wd) [0..<n] a =
         a + (\<Sum>v | v < n \<and> flag ! v = 1. wv ! v * wd ! v)"
    by (intro Suc.IH) auto
  from Suc.prems have flag_n: "flag ! n = 0 \<or> flag ! n = 1" by simp
  have step: "dual_objective_step flag wv wd n x =
      (if flag ! n = 1 then x + wv ! n * wd ! n else x)" for x
    using flag_n by (auto simp: dual_objective_step_def)
  have "fold (dual_objective_step flag wv wd) [0..<Suc n] a =
      dual_objective_step flag wv wd n (fold (dual_objective_step flag wv wd) [0..<n] a)"
    by simp
  also have "\<dots> = a + (\<Sum>v | v < Suc n \<and> flag ! v = 1. wv ! v * wd ! v)"
    unfolding step ih split using fin notin by simp
  finally show ?case .
qed

lemma count_basic_variables_take:
  "n \<le> length flag \<Longrightarrow>
   count_basic_variables flag n = int (length (filter (\<lambda>x. x = 0) (take n flag)))"
proof (induction n)
  case 0
  then show ?case by (simp add: count_basic_variables_def)
next
  case (Suc n)
  then have "n < length flag" by simp
  then have tk: "take (Suc n) flag = take n flag @ [flag ! n]"
    by (simp add: take_Suc_conv_app_nth)
  from Suc have ih: "count_basic_variables flag n = int (length (filter (\<lambda>x. x = 0) (take n flag)))"
    by simp
  have "count_basic_variables flag (Suc n) =
      (if flag ! n = 0 then count_basic_variables flag n + 1 else count_basic_variables flag n)"
    by (simp add: count_basic_variables_def)
  then show ?case by (simp add: ih tk)
qed

lemma count_basic_variables_filter:
  "count_basic_variables flag (length flag) = int (length (filter (\<lambda>x. x = 0) flag))"
  using count_basic_variables_take [of "length flag" flag] by simp

lemma length_filter_update:
  "i < length xs \<Longrightarrow>
   length (filter P (xs[i := v])) + (if P (xs ! i) then 1 else 0) =
   length (filter P xs) + (if P v then 1 else 0)"
proof (induction xs arbitrary: i)
  case Nil
  then show ?case by simp
next
  case (Cons x xs)
  show ?case
  proof (cases i)
    case 0
    then show ?thesis by simp
  next
    case (Suc j)
    with Cons.prems have "j < length xs" by simp
    from Cons.IH [OF this] Suc show ?thesis by simp
  qed
qed

lemma update_pivots_basicIndex:
  "basicIndex (simplex_basis (update_pivots mo columnIn rowOut sourceOut)) =
     (basicIndex (simplex_basis mo))[rowOut := columnIn]"
  by (simp add: update_pivots_def Let_def)

lemma update_pivots_nonbasicFlag:
  "nonbasicFlag (simplex_basis (update_pivots mo columnIn rowOut sourceOut)) =
     (nonbasicFlag (simplex_basis mo))
        [columnIn := 0, basicIndex (simplex_basis mo) ! rowOut := 1]"
  by (simp add: update_pivots_def Let_def)

lemma update_pivots_simplex_lp:
  "simplex_lp (update_pivots mo columnIn rowOut sourceOut) = simplex_lp mo"
  by (simp add: update_pivots_def Let_def)

lemma pivot_example_ok:
  "nonbasic_flag_basic_index_ok (simplex_lp pivot_example) (simplex_basis pivot_example)"
  by (simp add: pivot_example_def setup_num_basic_logicals_def empty_defs
      nonbasic_flag_basic_index_ok_def count_basic_variables_def upt_rec)

lemma same_outside_refl: "same_outside j mo mo"
  by (simp add: same_outside_def)

lemma same_outside_trans:
  "same_outside j a b \<Longrightarrow> same_outside j b c \<Longrightarrow> same_outside j a c"
  by (simp add: same_outside_def)

lemma correct_dual_step_frame:
  "i \<noteq> j \<Longrightarrow> same_outside j mo (fst (correct_dual_step tau_d i (mo, w)))"
  by (simp add: correct_dual_step_def Let_def same_outside_def flip_bound_def shift_dual_def
      random_fraction_def)

lemma correct_dual_fold_frame:
  "j \<notin> set is \<Longrightarrow> same_outside j mo (fst (fold (correct_dual_step tau_d) is (mo, w)))"
proof (induction "is" arbitrary: mo w)
  case Nil
  then show ?case by (simp add: same_outside_refl)
next
  case (Cons i "is")
  obtain mo1 w1 where st: "correct_dual_step tau_d i (mo, w) = (mo1, w1)"
    by (cases "correct_dual_step tau_d i (mo, w)")
  from Cons.prems have "i \<noteq> j" by auto
  from correct_dual_step_frame [OF this, of mo tau_d w] st
  have 1: "same_outside j mo mo1" by simp
  from Cons.prems have "j \<notin> set is" by simp
  from Cons.IH [OF this, of mo1 w1]
  have 2: "same_outside j mo1 (fst (fold (correct_dual_step tau_d) is (mo1, w1)))" .
  show ?case using same_outside_trans [OF 1 2] st by simp
qed

lemma correct_dual_step_perturbed:
  "costs_perturbed (simplex_info mo) = 1 \<Longrightarrow>
   costs_perturbed (simplex_info (fst (correct_dual_step tau_d i (mo, w)))) = 1"
  by (simp add: correct_dual_step_def Let_def flip_bound_def shift_dual_def random_fraction_def)

lemma correct_dual_fold_perturbed:
  "costs_perturbed (simplex_info mo) = 1 \<Longrightarrow>
   costs_perturbed (simplex_info (fst (fold (correct_dual_step tau_d) is (mo, w)))) = 1"
proof (induction "is" arbitrary: mo w)
  case Nil
  then show ?case by simp
next
  case (Cons i "is")
  obtain mo1 w1 where st: "correct_dual_step tau_d i (mo, w) = (mo1, w1)"
    by (cases "correct_dual_step tau_d i (mo, w)")
  from correct_dual_step_perturbed [OF Cons.prems, of tau_d i w] st
  have "costs_perturbed (simplex_info mo1) = 1" by simp
  from Cons.IH [OF this, of w1] st show ?case by simp
qed

lemma correct_dual_split:
  assumes "j < n"
  shows "fold (correct_dual_step tau_d) [0..<n] st =
         fold (correct_dual_step tau_d) [Suc j..<n]
           (correct_dual_step tau_d j (fold (correct_dual_step tau_d) [0..<j] st))"
proof -
  have "[0..<n] = [0..<j] @ [j..<n]"
    using assms upt_add_eq_append [of 0 j "n - j"] by simp
  moreover have "[j..<n] = j # [Suc j..<n]"
    using assms by (simp add: upt_conv_Cons)
  ultimately have "[0..<n] = [0..<j] @ j # [Suc j..<n]" by simp
  then show ?thesis by simp
qed

lemma correct_dual_example_eval:
  "fst (correct_dual correct_dual_example) = correct_dual_example
     \<lparr>simplex_basis := \<lparr>basicIndex = [], nonbasicFlag = [1, 1], nonbasicMove = [1, - 1]\<rparr>,
      simplex_info := empty_info\<lparr>workLower := [0, 0], workUpper := [HIGHS_CONST_INF, 1],
        workValue := [0, 1], workDual := [3 / 2 / 10 ^ 7, - 1],
        workCost := [3 + (3 / 2 / 10 ^ 7 + 1), 4], workShift := [0, 0], costs_perturbed := 1\<rparr>,
      random_count := 1\<rparr>"
  by (simp add: correct_dual_example_def empty_defs correct_dual_def correct_dual_step_def
      Let_def upt_rec numeral_2_eq_2 flip_bound_def shift_dual_def random_fraction_def
      HIGHS_CONST_INF_def)

lemma fold_pointwise_length:
  assumes "\<And>i xs. step i xs = xs[i := g i (xs ! i)]"
  shows "length (fold step is xs) = length xs"
  by (induction "is" arbitrary: xs) (simp_all add: assms)

lemma fold_pointwise_nth:
  assumes step: "\<And>i xs. step i xs = xs[i := g i (xs ! i)]"
    and "distinct is" and "j < length xs"
  shows "fold step is xs ! j = (if j \<in> set is then g j (xs ! j) else xs ! j)"
  using assms(2,3)
proof (induction "is" arbitrary: xs)
  case Nil
  then show ?case by simp
next
  case (Cons i "is")
  have len: "j < length (step i xs)" using Cons.prems by (simp add: step)
  from Cons.prems have d: "distinct is" and ni: "i \<notin> set is" by simp_all
  have "fold step (i # is) xs ! j = fold step is (step i xs) ! j" by simp
  also have "\<dots> = (if j \<in> set is then g j (step i xs ! j) else step i xs ! j)"
    using Cons.IH [OF d len] .
  also have "\<dots> = (if j \<in> set (i # is) then g j (xs ! j) else xs ! j)"
  proof (cases "j = i")
    case True
    then show ?thesis using ni Cons.prems(2) by (simp add: step)
  next
    case False
    then show ?thesis by (simp add: step)
  qed
  finally show ?case .
qed

lemma phase2_col_cost_fold:
  "workCost (fold (phase2_col_cost_step l) cols info) =
     fold (\<lambda>col wc. wc[col := of_int (sense l) * colCost l ! col]) cols (workCost info)
   \<and> workRange (fold (phase2_col_cost_step l) cols info) = workRange info
   \<and> numTotRandomValue (fold (phase2_col_cost_step l) cols info) = numTotRandomValue info
   \<and> perturb_costs (fold (phase2_col_cost_step l) cols info) = perturb_costs info"
  by (induction cols arbitrary: info) (simp_all add: phase2_col_cost_step_def Let_def)

lemma phase2_row_cost_fold:
  "workCost (fold (phase2_row_cost_step l) rows info) =
     fold (\<lambda>row wc. wc[numCol l + row := 0]) rows (workCost info)
   \<and> workRange (fold (phase2_row_cost_step l) rows info) = workRange info
   \<and> numTotRandomValue (fold (phase2_row_cost_step l) rows info) = numTotRandomValue info
   \<and> perturb_costs (fold (phase2_row_cost_step l) rows info) = perturb_costs info"
  by (induction rows arbitrary: info) (simp_all add: phase2_row_cost_step_def Let_def)

lemma perturb_col_step_pointwise:
  "perturb_col_step l rv base i wc =
     wc[i := (let lower = colLower l ! i; upper = colUpper l ! i;
                  xpert = (\<bar>wc ! i\<bar> + 1) * base * (1 + rv ! i)
              in if lower = - HIGHS_CONST_INF \<and> upper = HIGHS_CONST_INF then wc ! i
                 else if upper = HIGHS_CONST_INF then wc ! i + xpert
                 else if lower = - HIGHS_CONST_INF then wc ! i + - xpert
                 else if lower \<noteq> upper then wc ! i + (if wc ! i \<ge> 0 then xpert else - xpert)
                 else wc ! i)]"
  by (simp add: perturb_col_step_def Let_def)

lemma row_cost_fold_shift:
  "fold (\<lambda>row wc. wc[n + row := (0::real)]) [0..<m] xs = fold (\<lambda>i wc. wc[i := 0]) [n..<n + m] xs"
proof -
  have "[n..<n + m] = map (\<lambda>r. n + r) [0..<m]"
    using map_add_upt [of n m] by (simp add: add.commute)
  then show ?thesis by (simp add: fold_map comp_def)
qed

lemma initialise_cost_copy:
  "workCost (simplex_info (initialise_cost mo 0)) =
     fold (\<lambda>i wc. wc[i := 0]) [numCol (simplex_lp mo)..<numCol (simplex_lp mo) + numRow (simplex_lp mo)]
       (fold (\<lambda>col wc. wc[col := of_int (sense (simplex_lp mo)) * colCost (simplex_lp mo) ! col])
          [0..<numCol (simplex_lp mo)] (workCost (simplex_info mo)))"
  by (simp add: initialise_cost_def Let_def initialise_phase2_col_cost_def
      initialise_phase2_row_cost_def phase2_col_cost_fold phase2_row_cost_fold row_cost_fold_shift)

lemma initialise_cost_perturbed:
  assumes "perturb \<noteq> 0" "perturb_costs (simplex_info mo) \<noteq> 0"
  shows "workCost (simplex_info (initialise_cost mo perturb)) =
     fold (perturb_row_step (numTotRandomValue (simplex_info mo)))
       [numCol (simplex_lp mo)..<numCol (simplex_lp mo) + numRow (simplex_lp mo)]
       (fold (perturb_col_step (simplex_lp mo) (numTotRandomValue (simplex_info mo))
                (5 / 10 ^ 7 * perturbation_bigc (simplex_lp mo)
                   (workCost (simplex_info (initialise_cost mo 0))) (workRange (simplex_info mo))))
          [0..<numCol (simplex_lp mo)] (workCost (simplex_info (initialise_cost mo 0))))
     \<and> costs_perturbed (simplex_info (initialise_cost mo perturb)) = 1"
  using assms
  by (simp add: initialise_cost_def Let_def initialise_phase2_col_cost_def
      initialise_phase2_row_cost_def phase2_col_cost_fold phase2_row_cost_fold)

lemma cost_example_copy:
  "workCost (simplex_info (initialise_cost cost_example 0)) = [1, - 2, 1, 0]"
  by (simp add: initialise_cost_copy)
     (simp add: cost_example_def empty_defs upt_rec numeral_3_eq_3)

lemma cost_example_bigc:
  "perturbation_bigc (simplex_lp cost_example) [1, - 2, 1, 0] (workRange (simplex_info cost_example)) = 2"
  by (simp add: perturbation_bigc_def cost_example_def empty_defs upt_rec numeral_3_eq_3 Let_def)

lemma tighten_example_fields:
  "numCol (simplex_lp tighten_example) = 1"
  "numRow (simplex_lp tighten_example) = 1"
  "Astart (simplex_lp tighten_example) = [0, 1]"
  "Aindex (simplex_lp tighten_example) = [0]"
  "Avalue (simplex_lp tighten_example) = [1]"
  "colLower (simplex_lp tighten_example) = [0]"
  "colUpper (simplex_lp tighten_example) = [10]"
  "rowLower (simplex_lp tighten_example) = [5 / 100]"
  "rowUpper (simplex_lp tighten_example) = [HIGHS_CONST_INF]"
  "is_tightened (simplex_lp_status tighten_example) = False"
  by (simp_all add: tighten_example_def empty_defs)

lemma tighten_example_row_wise:
  "row_wise_copy 1 1 [0, 1] [0] [1] = ([0, 1], [0], [1])"
  by (simp add: row_wise_copy_def Let_def row_wise_put_def upt_conv_Cons)

lemma tighten_example_pass1:
  "fold (tighten_row [0, 1] [0] [1] [5 / 100] [HIGHS_CONST_INF]) [0..<1] ([0], [10], 0)
   = ([499999 / 10 ^ 7], [10], 1)"
  by (simp add: tighten_row_def row_range_step_def tighten_col_step_def Let_def big_B_def
      HIGHS_CONST_INF_def upt_conv_Cons)

lemma tighten_example_pass2:
  "fold (tighten_row [0, 1] [0] [1] [5 / 100] [HIGHS_CONST_INF]) [0..<1] ([499999 / 10 ^ 7], [10], 0)
   = ([499999 / 10 ^ 7], [10], 0)"
  by (simp add: tighten_row_def row_range_step_def tighten_col_step_def Let_def big_B_def
      HIGHS_CONST_INF_def upt_conv_Cons)

lemma tighten_example_passes:
  "tighten_passes 1 [0, 1] [0] [1] [5 / 100] [HIGHS_CONST_INF] 0 ([0], [10])
   = ([499999 / 10 ^ 7], [10])"
  apply (subst tighten_passes.simps)
  apply (simp only: fst_conv snd_conv tighten_example_pass1 Let_def)
  apply (subst tighten_passes.simps)
  apply (simp only: fst_conv snd_conv tighten_example_pass2 Let_def)
  apply simp
  done

lemma tighten_example_relax:
  "fold (relax_step [0] [10]) [0..<1] ([499999 / 10 ^ 7], [10]) = ([- 500001 / 10 ^ 7], [10])"
  by (simp add: relax_step_def Let_def upt_conv_Cons)

lemma tighten_example_lp:
  "simplex_lp (tighten_simplex_lp tighten_example) =
     (simplex_lp tighten_example)\<lparr>colLower := [- 500001 / 10 ^ 7], colUpper := [10]\<rparr>"
  unfolding tighten_simplex_lp_def Let_def tighten_example_fields if_False
    tighten_example_row_wise fst_conv snd_conv tighten_example_passes tighten_example_relax
  by simp

lemma dual_row_of_col_Some:
  "(\<exists>r. dual_row_of_col lower upper cost = Some r) \<longleftrightarrow>
     (lower = - HIGHS_CONST_INF \<and> upper = HIGHS_CONST_INF)
   \<or> (lower = 0 \<and> upper = HIGHS_CONST_INF)
   \<or> (lower = - HIGHS_CONST_INF \<and> upper = 0)
   \<or> (lower = 0 \<and> upper = 0)"
  by (auto simp: dual_row_of_col_def)

lemma dual_col_of_row_Some:
  "(\<exists>r. dual_col_of_row lower upper = Some r) \<longleftrightarrow>
     lower = upper
   \<or> (lower = - HIGHS_CONST_INF \<and> upper \<noteq> HIGHS_CONST_INF)
   \<or> (lower \<noteq> - HIGHS_CONST_INF \<and> upper = HIGHS_CONST_INF)
   \<or> (lower = - HIGHS_CONST_INF \<and> upper = HIGHS_CONST_INF)"
  by (auto simp: dual_col_of_row_def)

lemma dual_rows_Some:
  "(\<exists>r. dual_rows l js st = Some r) \<longleftrightarrow>
     (\<forall>j \<in> set js. \<exists>r. dual_row_of_col (colLower l ! j) (colUpper l ! j) (colCost l ! j) = Some r)"
proof (induction js arbitrary: st)
  case Nil
  then show ?case by simp
next
  case (Cons j js)
  show ?case
  proof (cases "dual_row_of_col (colLower l ! j) (colUpper l ! j) (colCost l ! j)")
    case None
    then show ?thesis by simp
  next
    case (Some r)
    then show ?thesis using Cons.IH by (cases r) simp
  qed
qed

lemma dual_cols_Some:
  "(\<exists>r. dual_cols l is st = Some r) \<longleftrightarrow>
     (\<forall>i \<in> set is. \<exists>r. dual_col_of_row (rowLower l ! i) (rowUpper l ! i) = Some r)"
proof (induction "is" arbitrary: st)
  case Nil
  then show ?case by (cases st) auto
next
  case (Cons i "is")
  show ?case
  proof (cases "dual_col_of_row (rowLower l ! i) (rowUpper l ! i)")
    case None
    then show ?thesis by simp
  next
    case (Some r)
    then show ?thesis using Cons.IH by (cases r) auto
  qed
qed

lemma not_quotient_gt:
  "(\<not> quotient_gt (int_quotient m n) c) = (quotient_le (int_quotient m n) c \<or> (m = 0 \<and> n = 0))"
  by (auto simp: int_quotient_def)

lemma transpose_example_condition:
  "\<not> is_transposed (simplex_lp_status transpose_example)
   \<and> (quotient_le (int_quotient (numCol (lp transpose_example)) (numRow (lp transpose_example))) (2 / 10)
      \<or> (numCol (lp transpose_example) = 0 \<and> numRow (lp transpose_example) = 0))
   \<and> (\<forall>j < numCol (lp transpose_example).
         (colLower (lp transpose_example) ! j = - HIGHS_CONST_INF
            \<and> colUpper (lp transpose_example) ! j = HIGHS_CONST_INF)
       \<or> (colLower (lp transpose_example) ! j = 0 \<and> colUpper (lp transpose_example) ! j = HIGHS_CONST_INF)
       \<or> (colLower (lp transpose_example) ! j = - HIGHS_CONST_INF \<and> colUpper (lp transpose_example) ! j = 0)
       \<or> (colLower (lp transpose_example) ! j = 0 \<and> colUpper (lp transpose_example) ! j = 0))
   \<and> (\<forall>i < numRow (lp transpose_example).
         rowLower (lp transpose_example) ! i = rowUpper (lp transpose_example) ! i
       \<or> (rowLower (lp transpose_example) ! i = - HIGHS_CONST_INF
            \<and> rowUpper (lp transpose_example) ! i \<noteq> HIGHS_CONST_INF)
       \<or> (rowLower (lp transpose_example) ! i \<noteq> - HIGHS_CONST_INF
            \<and> rowUpper (lp transpose_example) ! i = HIGHS_CONST_INF)
       \<or> (rowLower (lp transpose_example) ! i = - HIGHS_CONST_INF
            \<and> rowUpper (lp transpose_example) ! i = HIGHS_CONST_INF))"
  by (simp add: transpose_example_def empty_defs int_quotient_def less_Suc_eq numeral_eq_Suc)

lemma transpose_example_cancel:
  "quotient_gt (int_quotient (numCol (lp (transpose_example\<lparr>lp := (lp transpose_example)\<lparr>numRow := 1\<rparr>\<rparr>)))
      (numRow (lp (transpose_example\<lparr>lp := (lp transpose_example)\<lparr>numRow := 1\<rparr>\<rparr>)))) (2 / 10)"
  by (simp add: transpose_example_def empty_defs int_quotient_def)

section \<open>Verified properties\<close>

text \<open>
  Claim C8. \<^verbatim>\<open>compute_dual_objective_value\<close> stores in \<^verbatim>\<open>dualObjectiveValue\<close> the sum of
  \<^verbatim>\<open>workValue[v] * workDual[v]\<close> over all variables \<^verbatim>\<open>v\<close> with \<^verbatim>\<open>nonbasicFlag[v] = 1\<close>;
  in phase 1 that sum is stored as it is, in any other phase (phase 2 in particular) it
  is multiplied by the cost scale and the LP offset is subtracted; the flag
  \<^verbatim>\<open>has_dual_objective_value\<close> is set. The flags are those of the data model, 0 for a
  basic and 1 for a nonbasic variable.
\<close>

theorem compute_dual_objective_value_sum:
  assumes "\<forall>v < numCol (simplex_lp mo) + numRow (simplex_lp mo).
             nonbasicFlag (simplex_basis mo) ! v = 0 \<or> nonbasicFlag (simplex_basis mo) ! v = 1"
  shows "dualObjectiveValue (simplex_info (compute_dual_objective_value mo phase)) =
           (let S = (\<Sum>v | v < numCol (simplex_lp mo) + numRow (simplex_lp mo)
                          \<and> nonbasicFlag (simplex_basis mo) ! v = 1.
                        workValue (simplex_info mo) ! v * workDual (simplex_info mo) ! v)
            in if phase = 1 then S else S * scale_cost mo - offset (simplex_lp mo))
         \<and> has_dual_objective_value (simplex_lp_status (compute_dual_objective_value mo phase))"
  using fold_dual_objective_step [OF assms]
  by (simp add: compute_dual_objective_value_def Let_def)

text \<open>
  One structural column, nonbasic with value 2 and dual 5, and one basic logical; cost
  scale 4 and offset 1. Phase 2 gives \<open>2 * 5 * 4 - 1 = 39\<close>, phase 1 gives 10.
\<close>

theorem compute_dual_objective_value_sum_witness:
  "nonbasicFlag (simplex_basis dual_objective_example) = [1, 0]
   \<and> numCol (simplex_lp dual_objective_example) + numRow (simplex_lp dual_objective_example) = 2
   \<and> dualObjectiveValue (simplex_info (compute_dual_objective_value dual_objective_example 2)) = 39
   \<and> dualObjectiveValue (simplex_info (compute_dual_objective_value dual_objective_example 1)) = 10"
proof -
  have h: "\<forall>v < numCol (simplex_lp dual_objective_example) + numRow (simplex_lp dual_objective_example).
       nonbasicFlag (simplex_basis dual_objective_example) ! v = 0
     \<or> nonbasicFlag (simplex_basis dual_objective_example) ! v = 1"
    by (simp add: dual_objective_example_def empty_defs less_Suc_eq)
  have set: "{v. v < Suc (Suc 0) \<and> [1, 0 :: int] ! v = 1} = {0}"
    by (auto simp: less_Suc_eq)
  show ?thesis
    using h compute_dual_objective_value_sum [OF h, of 2]
      compute_dual_objective_value_sum [OF h, of 1]
    by (simp add: dual_objective_example_def empty_defs set)
qed

text \<open>
  Claim C9. The last statement of \<^verbatim>\<open>initialise_basic_index\<close> asserts the value of the
  assignment \<^verbatim>\<open>num_basic_variables = numRow - 1\<close>. Whenever the loop reaches it, with
  whatever number of basic variables counted, the assertion fails exactly when
  \<^verbatim>\<open>numRow = 1\<close> and the function completes exactly when \<^verbatim>\<open>numRow \<noteq> 1\<close>.
\<close>

theorem initialise_basic_index_final_assertion:
  assumes "initialise_basic_index_loop (nonbasicFlag (simplex_basis mo)) (numRow (simplex_lp mo))
             [0..<numCol (simplex_lp mo) + numRow (simplex_lp mo)]
             (basicIndex (simplex_basis mo)) 0 = Inr (bi, num_basic_variables)"
  shows "(initialise_basic_index mo = Inl Final_assertion) = (numRow (simplex_lp mo) = 1)
       \<and> (initialise_basic_index mo = Inr (mo\<lparr>simplex_basis := (simplex_basis mo)\<lparr>basicIndex := bi\<rparr>\<rparr>))
           = (numRow (simplex_lp mo) \<noteq> 1)"
  using assms by (auto simp: initialise_basic_index_def final_assertion_value_def)

text \<open>
  With one row and exactly one basic variable the count equals \<^verbatim>\<open>numRow\<close> and the
  assertion fails; with two rows and one basic variable the count differs from
  \<^verbatim>\<open>numRow\<close> and the assertion passes.
\<close>

theorem initialise_basic_index_final_assertion_witness:
  "initialise_basic_index_loop (nonbasicFlag (simplex_basis (basic_index_example 1))) 1
      [0..<2] (basicIndex (simplex_basis (basic_index_example 1))) 0 = Inr ([1], 1)
   \<and> initialise_basic_index (basic_index_example 1) = Inl Final_assertion
   \<and> initialise_basic_index_loop (nonbasicFlag (simplex_basis (basic_index_example 2))) 2
      [0..<3] (basicIndex (simplex_basis (basic_index_example 2))) 0 = Inr ([1, 0], 1)
   \<and> (\<exists>mo'. initialise_basic_index (basic_index_example 2) = Inr mo')"
proof -
  have l1: "initialise_basic_index_loop (nonbasicFlag (simplex_basis (basic_index_example 1)))
      (numRow (simplex_lp (basic_index_example 1)))
      [0..<numCol (simplex_lp (basic_index_example 1)) + numRow (simplex_lp (basic_index_example 1))]
      (basicIndex (simplex_basis (basic_index_example 1))) 0 = Inr ([1], 1)"
    by (simp add: basic_index_example_def empty_defs upt_rec)
  have l2: "initialise_basic_index_loop (nonbasicFlag (simplex_basis (basic_index_example 2)))
      (numRow (simplex_lp (basic_index_example 2)))
      [0..<numCol (simplex_lp (basic_index_example 2)) + numRow (simplex_lp (basic_index_example 2))]
      (basicIndex (simplex_basis (basic_index_example 2))) 0 = Inr ([1, 0], 1)"
    by (simp add: basic_index_example_def empty_defs upt_rec numeral_2_eq_2)
  have n1: "numRow (simplex_lp (basic_index_example 1)) = 1"
    and n2: "numRow (simplex_lp (basic_index_example 2)) = 2"
    by (simp_all add: basic_index_example_def empty_defs)
  show ?thesis
    using initialise_basic_index_final_assertion [OF l1]
      initialise_basic_index_final_assertion [OF l2] l1 l2 n1 n2
    by (simp add: basic_index_example_def empty_defs upt_rec numeral_2_eq_2 numeral_3_eq_3)
qed

text \<open>
  Claim C2, as amended. Let the arrays have their sizes, the basic indices be variables of
  the LP and pairwise distinct, and let the two invariants that
  \<^verbatim>\<open>nonbasic_flag_basic_index_ok\<close> checks hold: exactly \<^verbatim>\<open>numRow\<close> variables have
  \<^verbatim>\<open>nonbasicFlag = 0\<close> and \<^verbatim>\<open>nonbasicFlag[basicIndex[r]] = 0\<close> for every row. Then for
  every row \<^verbatim>\<open>rowOut\<close> and every nonbasic \<^verbatim>\<open>columnIn\<close>, after
  \<^verbatim>\<open>update_pivots(columnIn, rowOut, sourceOut)\<close> the two invariants hold again, and the
  basic indices are still pairwise distinct.
\<close>

theorem update_pivots_preserves_basis_invariants:
  assumes len_flag: "length (nonbasicFlag (simplex_basis mo)) =
                       numCol (simplex_lp mo) + numRow (simplex_lp mo)"
    and len_index: "length (basicIndex (simplex_basis mo)) = numRow (simplex_lp mo)"
    and range: "\<forall>r < numRow (simplex_lp mo).
                  basicIndex (simplex_basis mo) ! r < numCol (simplex_lp mo) + numRow (simplex_lp mo)"
    and dist: "distinct (basicIndex (simplex_basis mo))"
    and ok: "nonbasic_flag_basic_index_ok (simplex_lp mo) (simplex_basis mo)"
    and col_in: "columnIn < numCol (simplex_lp mo) + numRow (simplex_lp mo)"
    and nonbasic_in: "nonbasicFlag (simplex_basis mo) ! columnIn \<noteq> 0"
    and row_out: "rowOut < numRow (simplex_lp mo)"
  shows "nonbasic_flag_basic_index_ok (simplex_lp (update_pivots mo columnIn rowOut sourceOut))
           (simplex_basis (update_pivots mo columnIn rowOut sourceOut))
       \<and> distinct (basicIndex (simplex_basis (update_pivots mo columnIn rowOut sourceOut)))"
proof -
  define flag where "flag = nonbasicFlag (simplex_basis mo)"
  define bi where "bi = basicIndex (simplex_basis mo)"
  define nRow where "nRow = numRow (simplex_lp mo)"
  define numTot where "numTot = numCol (simplex_lp mo) + numRow (simplex_lp mo)"
  define columnOut where "columnOut = bi ! rowOut"
  define flag' where "flag' = flag[columnIn := 0, columnOut := 1]"
  define bi' where "bi' = bi[rowOut := columnIn]"
  have lf: "length flag = numTot" using len_flag by (simp add: flag_def numTot_def)
  have lb: "length bi = nRow" using len_index by (simp add: bi_def nRow_def)
  have cnt: "int (length (filter (\<lambda>x. x = 0) flag)) = int nRow"
    using ok count_basic_variables_filter [of flag] lf
    by (simp add: nonbasic_flag_basic_index_ok_def Let_def flag_def nRow_def numTot_def
        split: if_splits)
  have rows: "flag ! (bi ! r) = 0" if "r < nRow" for r
    using ok that
    by (simp add: nonbasic_flag_basic_index_ok_def Let_def flag_def nRow_def bi_def
        list_all_iff split: if_splits)
  have out_lt: "columnOut < numTot"
    using range row_out by (simp add: columnOut_def bi_def numTot_def)
  have in_lt: "columnIn < numTot" using col_in by (simp add: numTot_def)
  have out_basic: "flag ! columnOut = 0"
    using rows [of rowOut] row_out by (simp add: columnOut_def nRow_def)
  have in_nonbasic: "flag ! columnIn \<noteq> 0" using nonbasic_in by (simp add: flag_def)
  have neq: "columnIn \<noteq> columnOut" using out_basic in_nonbasic by auto
  \<comment> \<open>the number of zero flags\<close>
  have c1: "length (filter (\<lambda>x. x = 0) (flag[columnIn := 0])) = length (filter (\<lambda>x. x = 0) flag) + 1"
    using length_filter_update [of columnIn flag "\<lambda>x. x = 0" 0] in_lt lf in_nonbasic by simp
  have "(flag[columnIn := 0]) ! columnOut = 0" using neq out_basic by simp
  then have c2: "length (filter (\<lambda>x. x = 0) flag') + 1 = length (filter (\<lambda>x. x = 0) (flag[columnIn := 0]))"
    using length_filter_update [of columnOut "flag[columnIn := 0]" "\<lambda>x. x = 0" 1] out_lt lf
    by (simp add: flag'_def)
  have cnt': "count_basic_variables flag' numTot = int nRow"
    using count_basic_variables_filter [of flag'] c1 c2 cnt lf by (simp add: flag'_def)
  \<comment> \<open>the flags of the basic variables\<close>
  have in_notin: "columnIn \<notin> set bi"
  proof
    assume "columnIn \<in> set bi"
    then obtain r where "r < length bi" "bi ! r = columnIn" by (auto simp: in_set_conv_nth)
    with rows [of r] lb in_nonbasic show False by simp
  qed
  have rows': "flag' ! (bi' ! r) = 0" if r: "r < nRow" for r
  proof (cases "r = rowOut")
    case True
    then have "bi' ! r = columnIn" using r lb by (simp add: bi'_def)
    then show ?thesis using neq in_lt lf by (simp add: flag'_def)
  next
    case False
    then have eq: "bi' ! r = bi ! r" by (simp add: bi'_def)
    have "bi ! r \<noteq> bi ! rowOut"
      using dist False r row_out lb by (simp add: nth_eq_iff_index_eq bi_def nRow_def)
    then have "bi ! r \<noteq> columnOut" by (simp add: columnOut_def)
    moreover have "bi ! r \<noteq> columnIn" using in_notin r lb by (metis nth_mem)
    ultimately show ?thesis using rows [OF r] eq by (simp add: flag'_def)
  qed
  have dist': "distinct bi'"
    unfolding bi'_def using dist in_notin by (intro distinct_list_update) (auto simp: bi_def)
  have bi_eq: "basicIndex (simplex_basis (update_pivots mo columnIn rowOut sourceOut)) = bi'"
    by (simp add: update_pivots_basicIndex bi'_def bi_def)
  have flag_eq: "nonbasicFlag (simplex_basis (update_pivots mo columnIn rowOut sourceOut)) = flag'"
    by (simp add: update_pivots_nonbasicFlag flag'_def columnOut_def bi_def flag_def)
  have "nonbasic_flag_basic_index_ok (simplex_lp mo)
          (simplex_basis (update_pivots mo columnIn rowOut sourceOut))"
    unfolding nonbasic_flag_basic_index_ok_def Let_def bi_eq flag_eq
    using cnt' rows' by (simp add: list_all_iff numTot_def nRow_def)
  then show ?thesis
    using dist' by (simp add: update_pivots_simplex_lp bi_eq)
qed

text \<open>
  The structural column enters the logical basis of the LP with one row.
\<close>

theorem update_pivots_preserves_basis_invariants_witness:
  "nonbasic_flag_basic_index_ok (simplex_lp pivot_example) (simplex_basis pivot_example)
   \<and> distinct (basicIndex (simplex_basis pivot_example))
   \<and> nonbasicFlag (simplex_basis pivot_example) ! 0 \<noteq> 0
   \<and> nonbasic_flag_basic_index_ok (simplex_lp (update_pivots pivot_example 0 0 (- 1)))
        (simplex_basis (update_pivots pivot_example 0 0 (- 1)))
   \<and> distinct (basicIndex (simplex_basis (update_pivots pivot_example 0 0 (- 1))))"
proof -
  have 1: "length (nonbasicFlag (simplex_basis pivot_example)) =
      numCol (simplex_lp pivot_example) + numRow (simplex_lp pivot_example)"
    and 2: "length (basicIndex (simplex_basis pivot_example)) = numRow (simplex_lp pivot_example)"
    and 3: "\<forall>r < numRow (simplex_lp pivot_example). basicIndex (simplex_basis pivot_example) ! r
              < numCol (simplex_lp pivot_example) + numRow (simplex_lp pivot_example)"
    and 4: "distinct (basicIndex (simplex_basis pivot_example))"
    and 6: "0 < numCol (simplex_lp pivot_example) + numRow (simplex_lp pivot_example)"
    and 7: "nonbasicFlag (simplex_basis pivot_example) ! 0 \<noteq> 0"
    and 8: "0 < numRow (simplex_lp pivot_example)"
    by (simp_all add: pivot_example_def setup_num_basic_logicals_def empty_defs)
  show ?thesis
    using update_pivots_preserves_basis_invariants [OF 1 2 3 4 pivot_example_ok 6 7 8, of "- 1"]
      pivot_example_ok 4 7 by simp
qed

text \<open>
  Claim C2 as stated fails. With \<^verbatim>\<open>basicIndex = [0, 0]\<close> and flags \<^verbatim>\<open>[0, 0, 1]\<close> exactly
  \<^verbatim>\<open>numRow = 2\<close> variables are basic and both rows point to a basic variable. The
  nonbasic variable 2 entering in row 0 makes variable 0 nonbasic, and row 1 still
  points to it.
\<close>

theorem update_pivots_duplicate_basic_index_counterexample:
  "nonbasic_flag_basic_index_ok (simplex_lp duplicate_basic_index_example)
     (simplex_basis duplicate_basic_index_example)
   \<and> nonbasicFlag (simplex_basis duplicate_basic_index_example) ! 2 \<noteq> 0
   \<and> \<not> nonbasic_flag_basic_index_ok
        (simplex_lp (update_pivots duplicate_basic_index_example 2 0 (- 1)))
        (simplex_basis (update_pivots duplicate_basic_index_example 2 0 (- 1)))"
  by (simp add: duplicate_basic_index_example_def empty_defs update_pivots_def Let_def
      nonbasic_flag_basic_index_ok_def count_basic_variables_def upt_rec numeral_2_eq_2
      numeral_3_eq_3)

text \<open>
  Claim C10 fails on the code. \<^verbatim>\<open>update_pivots\<close> decrements \<^verbatim>\<open>num_basic_logicals\<close> when
  the leaving variable is a structural and increments it when the entering variable is
  a structural. In the logical basis of the LP with one column and one row the counter
  is 1; after the structural has replaced the logical no logical is basic, and the
  counter is 2.
\<close>

theorem update_pivots_num_basic_logicals_inverted:
  "num_basic_logicals (simplex_info pivot_example) =
     count_basic_logicals (simplex_lp pivot_example) (simplex_basis pivot_example)
   \<and> num_basic_logicals (simplex_info (update_pivots pivot_example 0 0 (- 1))) = 2
   \<and> count_basic_logicals (simplex_lp (update_pivots pivot_example 0 0 (- 1)))
        (simplex_basis (update_pivots pivot_example 0 0 (- 1))) = 0"
  by (simp add: pivot_example_def setup_num_basic_logicals_def empty_defs update_pivots_def
      Let_def count_basic_logicals_def upt_rec)

text \<open>
  Claim C1 fails on the code. When \<^verbatim>\<open>factor.build()\<close> reports rank deficiency,
  \<^verbatim>\<open>compute_factor\<close> still returns 0, leaves the basis as it was, keeps the factor of
  that single call of \<^verbatim>\<open>build\<close> and sets \<^verbatim>\<open>has_invert\<close> and \<^verbatim>\<open>has_fresh_invert\<close>.
\<close>

theorem compute_factor_ignores_rank_deficiency:
  assumes "rankDeficiency (build (simplex_lp mo) (basicIndex (simplex_basis mo))) \<noteq> 0"
  shows "fst (compute_factor build mo) = 0
       \<and> simplex_basis (snd (compute_factor build mo)) = simplex_basis mo
       \<and> factor (snd (compute_factor build mo)) = build (simplex_lp mo) (basicIndex (simplex_basis mo))
       \<and> has_invert (simplex_lp_status (snd (compute_factor build mo)))
       \<and> has_fresh_invert (simplex_lp_status (snd (compute_factor build mo)))"
  by (simp add: compute_factor_def Let_def)

text \<open>
  The basis of a zero column: the structural stays basic and the rank-deficient factor is
  declared a fresh inverse.
\<close>

theorem compute_factor_ignores_rank_deficiency_witness:
  "rankDeficiency (singular_build (simplex_lp singular_example)
      (basicIndex (simplex_basis singular_example))) = 1
   \<and> fst (compute_factor singular_build singular_example) = 0
   \<and> basicIndex (simplex_basis (snd (compute_factor singular_build singular_example))) = [0]
   \<and> rankDeficiency (factor (snd (compute_factor singular_build singular_example))) = 1
   \<and> has_invert (simplex_lp_status (snd (compute_factor singular_build singular_example)))"
proof -
  have h: "rankDeficiency (singular_build (simplex_lp singular_example)
      (basicIndex (simplex_basis singular_example))) \<noteq> 0"
    by (simp add: singular_build_def)
  show ?thesis
    using compute_factor_ignores_rank_deficiency [of singular_build singular_example, OF h]
    by (simp add: singular_build_def singular_example_def empty_defs)
qed

text \<open>
  Claim C3, as amended. Let \<open>j\<close> be a nonbasic variable that is not free and whose dual
  infeasibility triggers the correction, \<^verbatim>\<open>nonbasicMove[j] * workDual[j] <= -tau_d\<close>. If
  \<open>j\<close> has exactly one finite bound, \<^verbatim>\<open>correct_dual\<close> sets \<^verbatim>\<open>workDual[j]\<close> to
  \<open>(1 + rho) * tau_d\<close> when the move is 1 and to \<open>- (1 + rho) * tau_d\<close> otherwise, \<open>rho\<close>
  being a value returned by \<^verbatim>\<open>random.fraction()\<close>, adds the change of the dual to
  \<^verbatim>\<open>workCost[j]\<close> and records \<^verbatim>\<open>costs_perturbed\<close>. If \<open>j\<close> is boxed, its bound is flipped
  instead and its dual and cost stay. In both cases \<^verbatim>\<open>workShift\<close> is left as it was.
\<close>

theorem correct_dual_shift_or_flip:
  assumes j: "j < numCol (simplex_lp mo) + numRow (simplex_lp mo)"
    and len: "j < length (workDual (simplex_info mo))" "j < length (workCost (simplex_info mo))"
      "j < length (workValue (simplex_info mo))" "j < length (nonbasicMove (simplex_basis mo))"
    and nonbasic: "nonbasicFlag (simplex_basis mo) ! j \<noteq> 0"
    and not_free: "workLower (simplex_info mo) ! j \<noteq> - HIGHS_CONST_INF
                 \<or> workUpper (simplex_info mo) ! j \<noteq> HIGHS_CONST_INF"
    and infeasible: "of_int (nonbasicMove (simplex_basis mo) ! j) * workDual (simplex_info mo) ! j
                       \<le> - dual_feasibility_tolerance (simplex_info mo)"
  shows "(if workLower (simplex_info mo) ! j \<noteq> - HIGHS_CONST_INF
           \<and> workUpper (simplex_info mo) ! j \<noteq> HIGHS_CONST_INF
          then nonbasicMove (simplex_basis (fst (correct_dual mo))) ! j
                 = - (nonbasicMove (simplex_basis mo) ! j)
             \<and> workValue (simplex_info (fst (correct_dual mo))) ! j
                 = (if - (nonbasicMove (simplex_basis mo) ! j) = 1
                    then workLower (simplex_info mo) ! j else workUpper (simplex_info mo) ! j)
             \<and> workDual (simplex_info (fst (correct_dual mo))) ! j = workDual (simplex_info mo) ! j
             \<and> workCost (simplex_info (fst (correct_dual mo))) ! j = workCost (simplex_info mo) ! j
          else (\<exists>k. workDual (simplex_info (fst (correct_dual mo))) ! j
                      = (if nonbasicMove (simplex_basis mo) ! j = 1
                         then (1 + random_fractions mo k) * dual_feasibility_tolerance (simplex_info mo)
                         else - (1 + random_fractions mo k) * dual_feasibility_tolerance (simplex_info mo)))
             \<and> workCost (simplex_info (fst (correct_dual mo))) ! j
                 = workCost (simplex_info mo) ! j
                   + (workDual (simplex_info (fst (correct_dual mo))) ! j - workDual (simplex_info mo) ! j)
             \<and> costs_perturbed (simplex_info (fst (correct_dual mo))) = 1)
       \<and> workShift (simplex_info (fst (correct_dual mo))) = workShift (simplex_info mo)"
proof -
  define tau_d where "tau_d = dual_feasibility_tolerance (simplex_info mo)"
  define n where "n = numCol (simplex_lp mo) + numRow (simplex_lp mo)"
  obtain m1 w1 where s1: "fold (correct_dual_step tau_d) [0..<j] (mo, 0) = (m1, w1)"
    by (cases "fold (correct_dual_step tau_d) [0..<j] (mo, 0)")
  obtain m2 w2 where s2: "correct_dual_step tau_d j (m1, w1) = (m2, w2)"
    by (cases "correct_dual_step tau_d j (m1, w1)")
  define m3 where "m3 = fst (fold (correct_dual_step tau_d) [Suc j..<n] (m2, w2))"
  have res: "fst (correct_dual mo) = m3"
    using correct_dual_split [of j n tau_d "(mo, 0)"] j
    by (simp add: correct_dual_def Let_def tau_d_def [symmetric] n_def [symmetric] s1 s2 m3_def)
  have f1: "same_outside j mo m1"
    using correct_dual_fold_frame [of j "[0..<j]" mo tau_d 0] s1 by simp
  have f3: "same_outside j m2 m3"
    using correct_dual_fold_frame [of j "[Suc j..<n]" m2 tau_d w2] by (simp add: m3_def)
  have p3: "costs_perturbed (simplex_info m2) = 1 \<Longrightarrow> costs_perturbed (simplex_info m3) = 1"
    using correct_dual_fold_perturbed [of m2 tau_d "[Suc j..<n]" w2] by (simp add: m3_def)
  have shift_eq: "workShift (simplex_info m2) = workShift (simplex_info m1)"
    using s2 [symmetric]
    by (simp add: correct_dual_step_def Let_def flip_bound_def shift_dual_def random_fraction_def
        split: if_splits)
  have shift3: "workShift (simplex_info m3) = workShift (simplex_info mo)"
    using f1 f3 shift_eq by (simp add: same_outside_def)
  have len1: "j < length (workDual (simplex_info m1))" "j < length (workCost (simplex_info m1))"
      "j < length (workValue (simplex_info m1))" "j < length (nonbasicMove (simplex_basis m1))"
    using f1 len by (simp_all add: same_outside_def)
  have nonbasic1: "nonbasicFlag (simplex_basis m1) ! j \<noteq> 0"
    using f1 nonbasic by (simp add: same_outside_def)
  have infeasible1: "of_int (nonbasicMove (simplex_basis m1) ! j) * workDual (simplex_info m1) ! j
                       \<le> - tau_d"
    using f1 infeasible by (simp add: same_outside_def tau_d_def)
  show ?thesis
  proof (cases "workLower (simplex_info mo) ! j \<noteq> - HIGHS_CONST_INF
           \<and> workUpper (simplex_info mo) ! j \<noteq> HIGHS_CONST_INF")
    case True
    then have boxed1: "workLower (simplex_info m1) ! j \<noteq> - HIGHS_CONST_INF"
      "workUpper (simplex_info m1) ! j \<noteq> HIGHS_CONST_INF"
      using f1 by (simp_all add: same_outside_def)
    have m2: "m2 = flip_bound m1 j"
      using s2 [symmetric] boxed1 nonbasic1 infeasible1
      by (simp add: correct_dual_step_def Let_def)
    have "nonbasicMove (simplex_basis m2) ! j = - (nonbasicMove (simplex_basis m1) ! j)"
      "workValue (simplex_info m2) ! j
         = (if - (nonbasicMove (simplex_basis m1) ! j) = 1
            then workLower (simplex_info m1) ! j else workUpper (simplex_info m1) ! j)"
      "workDual (simplex_info m2) ! j = workDual (simplex_info m1) ! j"
      "workCost (simplex_info m2) ! j = workCost (simplex_info m1) ! j"
      using len1 by (simp_all add: m2 flip_bound_def Let_def)
    then show ?thesis
      using True f1 f3 shift3 unfolding res by (simp add: same_outside_def)
  next
    case False
    then have one1: "\<not> (workLower (simplex_info m1) ! j \<noteq> - HIGHS_CONST_INF
        \<and> workUpper (simplex_info m1) ! j \<noteq> HIGHS_CONST_INF)"
      and not_free1: "\<not> (workLower (simplex_info m1) ! j = - HIGHS_CONST_INF
        \<and> workUpper (simplex_info m1) ! j = HIGHS_CONST_INF)"
      using f1 not_free by (auto simp: same_outside_def)
    define k where "k = random_count m1"
    define dual where "dual = (if nonbasicMove (simplex_basis m1) ! j = 1
        then (1 + random_fractions m1 k) * tau_d else - (1 + random_fractions m1 k) * tau_d)"
    have m2: "m2 = shift_dual (m1\<lparr>simplex_info := (simplex_info m1)\<lparr>costs_perturbed := 1\<rparr>,
                               random_count := random_count m1 + 1\<rparr>) j dual"
      using s2 [symmetric] one1 not_free1 nonbasic1 infeasible1
      by (auto simp: correct_dual_step_def Let_def random_fraction_def dual_def k_def)
    have "workDual (simplex_info m2) ! j = dual"
      "workCost (simplex_info m2) ! j = workCost (simplex_info m1) ! j
         + (dual - workDual (simplex_info m1) ! j)"
      "costs_perturbed (simplex_info m2) = 1"
      using len1 by (simp_all add: m2 shift_dual_def Let_def)
    then have "workDual (simplex_info m3) ! j = dual"
      "workCost (simplex_info m3) ! j = workCost (simplex_info mo) ! j
         + (workDual (simplex_info m3) ! j - workDual (simplex_info mo) ! j)"
      "costs_perturbed (simplex_info m3) = 1"
      using f1 f3 p3 by (simp_all add: same_outside_def)
    moreover have "dual = (if nonbasicMove (simplex_basis mo) ! j = 1
        then (1 + random_fractions mo k) * dual_feasibility_tolerance (simplex_info mo)
        else - (1 + random_fractions mo k) * dual_feasibility_tolerance (simplex_info mo))"
      using f1 by (simp add: dual_def same_outside_def tau_d_def)
    ultimately show ?thesis
      using False shift3 unfolding res by auto
  qed
qed

text \<open>
  The column with the bounds \<open>[0, INF)\<close> gets the dual \<open>1.5 * 1e-7\<close> and its cost grows by
  the change of the dual; the boxed column moves to its upper bound.
\<close>

theorem correct_dual_shift_or_flip_witness:
  "workDual (simplex_info (fst (correct_dual correct_dual_example))) ! 0 = 3 / 2 / 10 ^ 7
   \<and> workCost (simplex_info (fst (correct_dual correct_dual_example))) ! 0
       = 3 + (3 / 2 / 10 ^ 7 - (- 1))
   \<and> costs_perturbed (simplex_info (fst (correct_dual correct_dual_example))) = 1
   \<and> workShift (simplex_info (fst (correct_dual correct_dual_example))) = [0, 0]
   \<and> nonbasicMove (simplex_basis (fst (correct_dual correct_dual_example))) ! 1 = - 1
   \<and> workValue (simplex_info (fst (correct_dual correct_dual_example))) ! 1 = 1"
proof -
  have a: "0 < numCol (simplex_lp correct_dual_example) + numRow (simplex_lp correct_dual_example)"
    "0 < length (workDual (simplex_info correct_dual_example))"
    "0 < length (workCost (simplex_info correct_dual_example))"
    "0 < length (workValue (simplex_info correct_dual_example))"
    "0 < length (nonbasicMove (simplex_basis correct_dual_example))"
    "nonbasicFlag (simplex_basis correct_dual_example) ! 0 \<noteq> 0"
    "workLower (simplex_info correct_dual_example) ! 0 \<noteq> - HIGHS_CONST_INF
       \<or> workUpper (simplex_info correct_dual_example) ! 0 \<noteq> HIGHS_CONST_INF"
    "of_int (nonbasicMove (simplex_basis correct_dual_example) ! 0)
       * workDual (simplex_info correct_dual_example) ! 0
       \<le> - dual_feasibility_tolerance (simplex_info correct_dual_example)"
    by (simp_all add: correct_dual_example_def empty_defs HIGHS_CONST_INF_def)
  have b: "1 < numCol (simplex_lp correct_dual_example) + numRow (simplex_lp correct_dual_example)"
    "1 < length (workDual (simplex_info correct_dual_example))"
    "1 < length (workCost (simplex_info correct_dual_example))"
    "1 < length (workValue (simplex_info correct_dual_example))"
    "1 < length (nonbasicMove (simplex_basis correct_dual_example))"
    "nonbasicFlag (simplex_basis correct_dual_example) ! 1 \<noteq> 0"
    "workLower (simplex_info correct_dual_example) ! 1 \<noteq> - HIGHS_CONST_INF
       \<or> workUpper (simplex_info correct_dual_example) ! 1 \<noteq> HIGHS_CONST_INF"
    "of_int (nonbasicMove (simplex_basis correct_dual_example) ! 1)
       * workDual (simplex_info correct_dual_example) ! 1
       \<le> - dual_feasibility_tolerance (simplex_info correct_dual_example)"
    by (simp_all add: correct_dual_example_def empty_defs HIGHS_CONST_INF_def)
  show ?thesis
    using correct_dual_shift_or_flip [OF a] correct_dual_shift_or_flip [OF b]
    by (simp add: correct_dual_example_def empty_defs HIGHS_CONST_INF_def)
qed

text \<open>
  Claim C3 as stated fails: for the column with the bounds \<open>[0, INF)\<close> the entry of
  \<^verbatim>\<open>workShift\<close> is not the old entry plus the change of the dual.
\<close>

theorem correct_dual_workShift_counterexample:
  "nonbasicFlag (simplex_basis correct_dual_example) ! 0 \<noteq> 0
   \<and> workLower (simplex_info correct_dual_example) ! 0 \<noteq> - HIGHS_CONST_INF
   \<and> workUpper (simplex_info correct_dual_example) ! 0 = HIGHS_CONST_INF
   \<and> of_int (nonbasicMove (simplex_basis correct_dual_example) ! 0)
        * workDual (simplex_info correct_dual_example) ! 0
        \<le> - dual_feasibility_tolerance (simplex_info correct_dual_example)
   \<and> workShift (simplex_info (fst (correct_dual correct_dual_example))) ! 0
        \<noteq> workShift (simplex_info correct_dual_example) ! 0
           + (workDual (simplex_info (fst (correct_dual correct_dual_example))) ! 0
              - workDual (simplex_info correct_dual_example) ! 0)"
  by (simp add: correct_dual_example_eval)
     (simp add: correct_dual_example_def empty_defs HIGHS_CONST_INF_def)

text \<open>
  Claim C7. When the perturbation runs in \<^verbatim>\<open>initialise_cost\<close> (both \<^verbatim>\<open>perturb\<close> and
  \<^verbatim>\<open>perturb_costs\<close> nonzero), with \<open>c\<close> the working costs as copied, \<open>c[j] = sense * colCost[j]\<close>
  for a column and 0 for a logical, \<open>base = 5e-7 * bigc\<close> and
  \<open>xpert = (|c[j]| + 1) * base * (1 + rho_j)\<close>, \<open>rho_j\<close> being entry \<open>j\<close> of the vector of random
  values: the cost of column \<open>j\<close> is unchanged if the column is free, increased by
  \<open>xpert\<close> if only its lower bound is finite, decreased by \<open>xpert\<close> if only its upper bound
  is finite, changed by \<open>xpert\<close> with the sign of \<open>c[j]\<close> if both bounds are finite and
  differ, and unchanged if they are finite and equal; the cost of each logical \<open>i\<close> is
  increased by \<open>(0.5 - rho_i) * 1e-12\<close>; and \<^verbatim>\<open>costs_perturbed\<close> is 1. A lower bound is
  infinite when it is \<open>-INF\<close>, an upper bound when it is \<open>INF\<close>.
\<close>

theorem initialise_cost_perturbation:
  assumes perturb: "perturb \<noteq> 0" "perturb_costs (simplex_info mo) \<noteq> 0"
    and len: "length (workCost (simplex_info mo)) = numCol (simplex_lp mo) + numRow (simplex_lp mo)"
  shows "(let l = simplex_lp mo;
              c = workCost (simplex_info (initialise_cost mo 0));
              w = workCost (simplex_info (initialise_cost mo perturb));
              rv = numTotRandomValue (simplex_info mo);
              base = 5 / 10 ^ 7 * perturbation_bigc l c (workRange (simplex_info mo))
          in costs_perturbed (simplex_info (initialise_cost mo perturb)) = 1
           \<and> (\<forall>j < numCol l.
                 c ! j = of_int (sense l) * colCost l ! j
               \<and> w ! j = c ! j +
                   (let lower = colLower l ! j; upper = colUpper l ! j;
                        xpert = (\<bar>c ! j\<bar> + 1) * base * (1 + rv ! j)
                    in if lower = - HIGHS_CONST_INF \<and> upper = HIGHS_CONST_INF then 0
                       else if lower \<noteq> - HIGHS_CONST_INF \<and> upper = HIGHS_CONST_INF then xpert
                       else if lower = - HIGHS_CONST_INF \<and> upper \<noteq> HIGHS_CONST_INF then - xpert
                       else if lower \<noteq> upper then (if c ! j \<ge> 0 then xpert else - xpert)
                       else 0))
           \<and> (\<forall>i. numCol l \<le> i \<and> i < numCol l + numRow l \<longrightarrow>
                 c ! i = 0 \<and> w ! i = c ! i + (1 / 2 - rv ! i) * (1 / 10 ^ 12)))"
proof -
  define l where "l = simplex_lp mo"
  define n where "n = numCol l"
  define numTot where "numTot = numCol l + numRow l"
  define wc where "wc = workCost (simplex_info mo)"
  define rv where "rv = numTotRandomValue (simplex_info mo)"
  define c where "c = workCost (simplex_info (initialise_cost mo 0))"
  define w where "w = workCost (simplex_info (initialise_cost mo perturb))"
  define base where "base = 5 / 10 ^ 7 * perturbation_bigc l c (workRange (simplex_info mo))"
  define colcopy where "colcopy = (\<lambda>col (xs :: real list). xs[col := of_int (sense l) * colCost l ! col])"
  define rowcopy where "rowcopy = (\<lambda>(i :: nat) (xs :: real list). xs[i := 0])"
  define c1 where "c1 = fold colcopy [0..<n] wc"
  define w1 where "w1 = fold (perturb_col_step l rv base) [0..<n] c"
  have lwc: "length wc = numTot" using len by (simp add: wc_def numTot_def l_def)
  have n_le: "n \<le> numTot" by (simp add: n_def numTot_def)
  have c_eq: "c = fold rowcopy [n..<numTot] c1"
    by (simp add: c_def c1_def initialise_cost_copy colcopy_def rowcopy_def n_def numTot_def
        l_def wc_def)
  have w_eq: "w = fold (perturb_row_step rv) [n..<numTot] w1"
    and cp: "costs_perturbed (simplex_info (initialise_cost mo perturb)) = 1"
    using initialise_cost_perturbed [OF perturb]
    by (simp_all add: w_def w1_def c_def base_def rv_def n_def numTot_def l_def)
  have lc1: "length c1 = numTot"
    unfolding c1_def using fold_pointwise_length [of colcopy "\<lambda>col x. of_int (sense l) * colCost l ! col"] lwc
    by (simp add: colcopy_def)
  have lc: "length c = numTot"
    unfolding c_eq using fold_pointwise_length [of rowcopy "\<lambda>i x. 0"] lc1
    by (simp add: rowcopy_def)
  have lw1: "length w1 = numTot"
    unfolding w1_def
    using fold_pointwise_length [of "perturb_col_step l rv base", OF perturb_col_step_pointwise] lc
    by simp
  have c1_nth: "c1 ! j = (if j < n then of_int (sense l) * colCost l ! j else wc ! j)"
    if "j < numTot" for j
    unfolding c1_def
    using fold_pointwise_nth [of colcopy "\<lambda>col x. of_int (sense l) * colCost l ! col" "[0..<n]" j wc]
      that lwc by (simp add: colcopy_def)
  have c_nth: "c ! j = (if n \<le> j then 0 else c1 ! j)" if "j < numTot" for j
    unfolding c_eq
    using fold_pointwise_nth [of rowcopy "\<lambda>i x. 0" "[n..<numTot]" j c1] that lc1
    by (simp add: rowcopy_def)
  have w1_nth: "w1 ! j = (if j < n then
        (let lower = colLower l ! j; upper = colUpper l ! j;
             xpert = (\<bar>c ! j\<bar> + 1) * base * (1 + rv ! j)
         in if lower = - HIGHS_CONST_INF \<and> upper = HIGHS_CONST_INF then c ! j
            else if upper = HIGHS_CONST_INF then c ! j + xpert
            else if lower = - HIGHS_CONST_INF then c ! j + - xpert
            else if lower \<noteq> upper then c ! j + (if c ! j \<ge> 0 then xpert else - xpert)
            else c ! j)
      else c ! j)" if "j < numTot" for j
    unfolding w1_def
    using fold_pointwise_nth [of "perturb_col_step l rv base" _ "[0..<n]" j c,
        OF perturb_col_step_pointwise] that lc
    by simp
  have w_nth: "w ! j = (if n \<le> j then w1 ! j + (1 / 2 - rv ! j) * (1 / 10 ^ 12) else w1 ! j)"
    if "j < numTot" for j
    unfolding w_eq
    using fold_pointwise_nth [of "perturb_row_step rv"
        "\<lambda>i x. x + (1 / 2 - rv ! i) * (1 / 10 ^ 12)" "[n..<numTot]" j w1] that lw1
    by (simp add: perturb_row_step_def)
  have cols: "c ! j = of_int (sense l) * colCost l ! j
      \<and> w ! j = c ! j +
          (let lower = colLower l ! j; upper = colUpper l ! j;
               xpert = (\<bar>c ! j\<bar> + 1) * base * (1 + rv ! j)
           in if lower = - HIGHS_CONST_INF \<and> upper = HIGHS_CONST_INF then 0
              else if lower \<noteq> - HIGHS_CONST_INF \<and> upper = HIGHS_CONST_INF then xpert
              else if lower = - HIGHS_CONST_INF \<and> upper \<noteq> HIGHS_CONST_INF then - xpert
              else if lower \<noteq> upper then (if c ! j \<ge> 0 then xpert else - xpert)
              else 0)" if "j < n" for j
  proof -
    from that n_le have jt: "j < numTot" by simp
    show ?thesis
      using that c_nth [OF jt] c1_nth [OF jt] w_nth [OF jt] w1_nth [OF jt]
      by (simp add: Let_def)
  qed
  have rows: "c ! i = 0 \<and> w ! i = c ! i + (1 / 2 - rv ! i) * (1 / 10 ^ 12)"
    if "n \<le> i" "i < numTot" for i
    using that c_nth [of i] w_nth [of i] w1_nth [of i] by simp
  show ?thesis
    unfolding Let_def
    using cp cols rows
    unfolding l_def [symmetric] c_def [symmetric] w_def [symmetric] rv_def [symmetric]
      base_def [symmetric] n_def numTot_def Let_def
    by blast
qed

text \<open>
  Here \<open>bigc = 2\<close> and \<open>base = 1e-6\<close>: the column bounded below gets \<open>+3e-6\<close>, the boxed column
  with the negative cost gets \<open>-4.5e-6\<close>, the fixed column keeps its cost and the logical
  gets \<open>0.25e-12\<close>.
\<close>

theorem initialise_cost_perturbation_witness:
  "workCost (simplex_info (initialise_cost cost_example 1)) ! 0 = 1 + 3 / 10 ^ 6
   \<and> workCost (simplex_info (initialise_cost cost_example 1)) ! 1 = - 2 - 45 / 10 ^ 7
   \<and> workCost (simplex_info (initialise_cost cost_example 1)) ! 2 = 1
   \<and> workCost (simplex_info (initialise_cost cost_example 1)) ! 3 = 1 / 4 / 10 ^ 12
   \<and> costs_perturbed (simplex_info (initialise_cost cost_example 1)) = 1"
proof -
  have h: "(1::int) \<noteq> 0" "perturb_costs (simplex_info cost_example) \<noteq> 0"
    "length (workCost (simplex_info cost_example)) =
       numCol (simplex_lp cost_example) + numRow (simplex_lp cost_example)"
    by (simp_all add: cost_example_def empty_defs)
  note t = initialise_cost_perturbation [OF h, unfolded Let_def cost_example_copy cost_example_bigc]
  have n: "numCol (simplex_lp cost_example) = 3" "numRow (simplex_lp cost_example) = 1"
    by (simp_all add: cost_example_def empty_defs)
  from t have cp: "costs_perturbed (simplex_info (initialise_cost cost_example 1)) = 1" by blast
  from t n have c0: "workCost (simplex_info (initialise_cost cost_example 1)) ! 0 = 1 + 3 / 10 ^ 6"
    by (simp add: cost_example_def empty_defs HIGHS_CONST_INF_def)
  from t n have c1: "workCost (simplex_info (initialise_cost cost_example 1)) ! 1 = - 2 - 45 / 10 ^ 7"
    by (simp add: cost_example_def empty_defs HIGHS_CONST_INF_def)
  from t n have c2: "workCost (simplex_info (initialise_cost cost_example 1)) ! 2 = 1"
    by (simp add: cost_example_def empty_defs HIGHS_CONST_INF_def)
  from t n have c3: "workCost (simplex_info (initialise_cost cost_example 1)) ! 3 = 1 / 4 / 10 ^ 12"
    by (simp add: cost_example_def empty_defs HIGHS_CONST_INF_def)
  show ?thesis using cp c0 c1 c2 c3 by simp
qed

text \<open>
  Claim C4 fails on the code. For the column with the bounds \<open>[0, 10]\<close> and the row
  \<open>x \<ge> 0.05\<close> the first pass raises the lower bound to \<open>0.0499999\<close> and the second changes
  nothing. In the final loop the interval has not collapsed, and the lower bound, being
  above the saved one, is set to the minimum of \<open>0.0499999 - 0.1\<close> and the saved bound 0:
  the column leaves \<^verbatim>\<open>tighten_simplex_lp\<close> with the lower bound \<open>-0.0500001\<close>, below the
  lower bound 0 it had on entry.
\<close>

theorem tighten_simplex_lp_lower_bound_leaves_interval:
  "colLower (simplex_lp tighten_example) ! 0 = 0
   \<and> colUpper (simplex_lp tighten_example) ! 0 = 10
   \<and> colLower (simplex_lp (tighten_simplex_lp tighten_example)) ! 0 = - 500001 / 10 ^ 7
   \<and> colLower (simplex_lp (tighten_simplex_lp tighten_example)) ! 0
        < colLower (simplex_lp tighten_example) ! 0"
  by (simp add: tighten_example_lp) (simp add: tighten_example_def empty_defs)

text \<open>
  Claim C5 fails on the code for the tighten pass. When \<^verbatim>\<open>tighten_simplex_lp\<close> runs, the
  status it leaves is the status on entry with \<^verbatim>\<open>is_tightened\<close> set and nothing else
  changed: no derived validity bit is cleared.
\<close>

theorem tighten_simplex_lp_keeps_derived_bits:
  assumes "\<not> is_tightened (simplex_lp_status mo)"
  shows "simplex_lp_status (tighten_simplex_lp mo) = (simplex_lp_status mo)\<lparr>is_tightened := True\<rparr>"
  using assms by (simp add: tighten_simplex_lp_def Let_def)

text \<open>
  With all ten derived validity bits set on entry, all ten are still set after the pass,
  whereas \<^verbatim>\<open>update_simplex_lp_status\<close> with the action \<^verbatim>\<open>TIGHTEN\<close> clears them.
\<close>

theorem tighten_simplex_lp_keeps_derived_bits_witness:
  "is_tightened (simplex_lp_status (tighten_simplex_lp tighten_example))
   \<and> has_basis (simplex_lp_status (tighten_simplex_lp tighten_example))
   \<and> has_matrix_col_wise (simplex_lp_status (tighten_simplex_lp tighten_example))
   \<and> has_matrix_row_wise (simplex_lp_status (tighten_simplex_lp tighten_example))
   \<and> has_dual_steepest_edge_weights (simplex_lp_status (tighten_simplex_lp tighten_example))
   \<and> has_nonbasic_dual_values (simplex_lp_status (tighten_simplex_lp tighten_example))
   \<and> has_basic_primal_values (simplex_lp_status (tighten_simplex_lp tighten_example))
   \<and> has_invert (simplex_lp_status (tighten_simplex_lp tighten_example))
   \<and> has_fresh_invert (simplex_lp_status (tighten_simplex_lp tighten_example))
   \<and> has_fresh_rebuild (simplex_lp_status (tighten_simplex_lp tighten_example))
   \<and> has_dual_objective_value (simplex_lp_status (tighten_simplex_lp tighten_example))
   \<and> update_simplex_lp_status (simplex_lp_status tighten_example) TIGHTEN
        = empty_status\<lparr>valid := True, is_tightened := True\<rparr>"
proof -
  have h: "\<not> is_tightened (simplex_lp_status tighten_example)"
    by (simp add: tighten_example_def empty_defs)
  show ?thesis
    using tighten_simplex_lp_keeps_derived_bits [OF h]
    by (simp add: tighten_example_def empty_defs invalidate_simplex_lp_data_def)
qed

text \<open>
  Claim C6, as amended. Let the condition be: the LP is not yet transposed; the ratio test
  does not cancel, which is \<open>numCol / numRow \<le> 0.2\<close> or, for an LP with neither columns nor
  rows, the quotient \<open>0 / 0\<close>; every column's bound pair is one of free \<open>(-INF, INF)\<close>,
  nonnegative \<open>(0, INF)\<close>, nonpositive \<open>(-INF, 0)\<close> and fixed at zero \<open>(0, 0)\<close>; and every
  row's bound pair is one of equal bounds, only an upper bound, only a lower bound and
  free. If the condition holds, \<^verbatim>\<open>transpose_simplex_lp\<close> records the transposed flag; if it
  does not hold, the function returns the model object, LP data and status flags, exactly
  as it was on entry.
\<close>

theorem transpose_simplex_lp_only_when:
  "(let l = lp mo;
        condition =
          (\<not> is_transposed (simplex_lp_status mo)
           \<and> (quotient_le (int_quotient (numCol l) (numRow l)) (2 / 10)
              \<or> (numCol l = 0 \<and> numRow l = 0))
           \<and> (\<forall>j < numCol l.
                 (colLower l ! j = - HIGHS_CONST_INF \<and> colUpper l ! j = HIGHS_CONST_INF)
               \<or> (colLower l ! j = 0 \<and> colUpper l ! j = HIGHS_CONST_INF)
               \<or> (colLower l ! j = - HIGHS_CONST_INF \<and> colUpper l ! j = 0)
               \<or> (colLower l ! j = 0 \<and> colUpper l ! j = 0))
           \<and> (\<forall>i < numRow l.
                 rowLower l ! i = rowUpper l ! i
               \<or> (rowLower l ! i = - HIGHS_CONST_INF \<and> rowUpper l ! i \<noteq> HIGHS_CONST_INF)
               \<or> (rowLower l ! i \<noteq> - HIGHS_CONST_INF \<and> rowUpper l ! i = HIGHS_CONST_INF)
               \<or> (rowLower l ! i = - HIGHS_CONST_INF \<and> rowUpper l ! i = HIGHS_CONST_INF)))
    in (condition \<longrightarrow> is_transposed (simplex_lp_status (transpose_simplex_lp mo)))
     \<and> (\<not> condition \<longrightarrow> transpose_simplex_lp mo = mo))"
proof -
  define l where "l = lp mo"
  define colsok where "colsok \<longleftrightarrow> (\<forall>j < numCol l.
                 (colLower l ! j = - HIGHS_CONST_INF \<and> colUpper l ! j = HIGHS_CONST_INF)
               \<or> (colLower l ! j = 0 \<and> colUpper l ! j = HIGHS_CONST_INF)
               \<or> (colLower l ! j = - HIGHS_CONST_INF \<and> colUpper l ! j = 0)
               \<or> (colLower l ! j = 0 \<and> colUpper l ! j = 0))"
  define rowsok where "rowsok \<longleftrightarrow> (\<forall>i < numRow l.
                 rowLower l ! i = rowUpper l ! i
               \<or> (rowLower l ! i = - HIGHS_CONST_INF \<and> rowUpper l ! i \<noteq> HIGHS_CONST_INF)
               \<or> (rowLower l ! i \<noteq> - HIGHS_CONST_INF \<and> rowUpper l ! i = HIGHS_CONST_INF)
               \<or> (rowLower l ! i = - HIGHS_CONST_INF \<and> rowUpper l ! i = HIGHS_CONST_INF))"
  define cancel where "cancel \<longleftrightarrow> quotient_gt (int_quotient (numCol l) (numRow l)) (2 / 10)"
  define drows where "drows = dual_rows l [0..<numCol l] (replicate (numCol l) 0, replicate (numCol l) 0)"
  define dcols where "dcols = dual_cols l [0..<numRow l]
      (replicate (numRow l) 0, replicate (numRow l) 0, replicate (numRow l) 0)"
  define transposed where "transposed = (\<lambda>r :: real list \<times> real list. \<lambda>c :: real list \<times> real list \<times> real list.
      mo\<lparr>simplex_lp := (simplex_lp mo)
            \<lparr>Astart := fst (row_wise_copy (numCol l) (numRow l) (Astart l) (Aindex l) (Avalue l)),
             Aindex := fst (snd (row_wise_copy (numCol l) (numRow l) (Astart l) (Aindex l) (Avalue l))),
             Avalue := snd (snd (row_wise_copy (numCol l) (numRow l) (Astart l) (Aindex l) (Avalue l))),
             colLower := fst c, colUpper := fst (snd c),
             rowLower := fst r, rowUpper := snd r,
             colCost := snd (snd c)\<rparr>,
         simplex_lp_status := update_simplex_lp_status (simplex_lp_status mo) TRANSPOSE\<rparr>)"
  have cols: "(\<exists>r. drows = Some r) \<longleftrightarrow> colsok"
    unfolding drows_def colsok_def dual_rows_Some dual_row_of_col_Some by auto
  have rows: "(\<exists>r. dcols = Some r) \<longleftrightarrow> rowsok"
    unfolding dcols_def rowsok_def dual_cols_Some dual_col_of_row_Some by auto
  have unfold: "transpose_simplex_lp mo =
     (if is_transposed (simplex_lp_status mo) then mo
      else if cancel then mo
      else (case drows of None \<Rightarrow> mo
            | Some r \<Rightarrow> (case dcols of None \<Rightarrow> mo | Some c \<Rightarrow> transposed r c)))"
    unfolding transpose_simplex_lp_def Let_def l_def [symmetric] drows_def [symmetric]
      dcols_def [symmetric] cancel_def [symmetric] transposed_def
    by (simp split: option.split prod.split)
  have transposed_flag: "is_transposed (simplex_lp_status (transposed r c))" for r c
    by (simp add: transposed_def invalidate_simplex_lp_data_def)
  have pos: "is_transposed (simplex_lp_status (transpose_simplex_lp mo))"
    if "\<not> is_transposed (simplex_lp_status mo)" "\<not> cancel" colsok rowsok
  proof -
    from that cols obtain r where r: "drows = Some r" by blast
    from that rows obtain c where c: "dcols = Some c" by blast
    have "transpose_simplex_lp mo = transposed r c"
      using that(1,2) by (simp add: unfold r c)
    then show ?thesis by (simp only: transposed_flag)
  qed
  have neg1: "transpose_simplex_lp mo = mo" if "is_transposed (simplex_lp_status mo)"
    using that by (simp add: unfold)
  have neg2: "transpose_simplex_lp mo = mo" if "cancel"
    using that by (simp add: unfold)
  have neg3: "transpose_simplex_lp mo = mo" if "\<not> colsok"
  proof -
    from that cols have "drows = None" by (cases drows) auto
    then show ?thesis by (simp add: unfold)
  qed
  have neg4: "transpose_simplex_lp mo = mo" if "\<not> rowsok"
  proof -
    from that rows have "dcols = None" by (cases dcols) auto
    then show ?thesis by (cases drows) (simp_all add: unfold)
  qed
  have cond_eq: "(\<not> is_transposed (simplex_lp_status mo)
           \<and> (quotient_le (int_quotient (numCol (lp mo)) (numRow (lp mo))) (2 / 10)
              \<or> (numCol (lp mo) = 0 \<and> numRow (lp mo) = 0))
           \<and> (\<forall>j < numCol (lp mo).
                 (colLower (lp mo) ! j = - HIGHS_CONST_INF \<and> colUpper (lp mo) ! j = HIGHS_CONST_INF)
               \<or> (colLower (lp mo) ! j = 0 \<and> colUpper (lp mo) ! j = HIGHS_CONST_INF)
               \<or> (colLower (lp mo) ! j = - HIGHS_CONST_INF \<and> colUpper (lp mo) ! j = 0)
               \<or> (colLower (lp mo) ! j = 0 \<and> colUpper (lp mo) ! j = 0))
           \<and> (\<forall>i < numRow (lp mo).
                 rowLower (lp mo) ! i = rowUpper (lp mo) ! i
               \<or> (rowLower (lp mo) ! i = - HIGHS_CONST_INF \<and> rowUpper (lp mo) ! i \<noteq> HIGHS_CONST_INF)
               \<or> (rowLower (lp mo) ! i \<noteq> - HIGHS_CONST_INF \<and> rowUpper (lp mo) ! i = HIGHS_CONST_INF)
               \<or> (rowLower (lp mo) ! i = - HIGHS_CONST_INF \<and> rowUpper (lp mo) ! i = HIGHS_CONST_INF))) \<longleftrightarrow>
        (\<not> is_transposed (simplex_lp_status mo) \<and> \<not> cancel \<and> colsok \<and> rowsok)"
    unfolding colsok_def rowsok_def cancel_def l_def not_quotient_gt by (rule refl)
  show ?thesis
    unfolding Let_def cond_eq
    using pos neg1 neg2 neg3 neg4 by blast
qed

text \<open>
  One free column and five equality rows have the ratio \<open>1/5\<close> and are transposed; the same
  LP declared with one row has the ratio 1 and is left as it is.
\<close>

theorem transpose_simplex_lp_only_when_witness:
  "is_transposed (simplex_lp_status (transpose_simplex_lp transpose_example))
   \<and> transpose_simplex_lp (transpose_example\<lparr>lp := (lp transpose_example)\<lparr>numRow := 1\<rparr>\<rparr>)
       = transpose_example\<lparr>lp := (lp transpose_example)\<lparr>numRow := 1\<rparr>\<rparr>"
proof -
  have a: "is_transposed (simplex_lp_status (transpose_simplex_lp transpose_example))"
    using transpose_simplex_lp_only_when [of transpose_example] transpose_example_condition
    unfolding Let_def by blast
  have b: "transpose_simplex_lp (transpose_example\<lparr>lp := (lp transpose_example)\<lparr>numRow := 1\<rparr>\<rparr>)
       = transpose_example\<lparr>lp := (lp transpose_example)\<lparr>numRow := 1\<rparr>\<rparr>"
    using transpose_simplex_lp_only_when
            [of "transpose_example\<lparr>lp := (lp transpose_example)\<lparr>numRow := 1\<rparr>\<rparr>"]
      transpose_example_cancel not_quotient_gt
    unfolding Let_def by blast
  show ?thesis using a b by simp
qed

text \<open>
  Claim C6 as stated fails for the LP with neither columns nor rows: the quotient
  \<open>0 / 0\<close> is not a number, so it is not \<open>\<le> 0.2\<close>, yet the test \<^verbatim>\<open>> 0.2\<close> does not cancel
  either, no column and no row cancels, and the transposed flag is recorded.
\<close>

theorem transpose_simplex_lp_empty_counterexample:
  "numCol (lp empty_model) = 0
   \<and> numRow (lp empty_model) = 0
   \<and> \<not> quotient_le (int_quotient (numCol (lp empty_model)) (numRow (lp empty_model))) (2 / 10)
   \<and> \<not> is_transposed (simplex_lp_status empty_model)
   \<and> is_transposed (simplex_lp_status (transpose_simplex_lp empty_model))
   \<and> transpose_simplex_lp empty_model \<noteq> empty_model"
proof -
  have "transpose_simplex_lp empty_model =
      empty_model\<lparr>simplex_lp := empty_lp\<lparr>Astart := [0]\<rparr>,
                  simplex_lp_status := empty_status\<lparr>is_transposed := True\<rparr>\<rparr>"
    by (simp add: transpose_simplex_lp_def empty_defs int_quotient_def Let_def row_wise_copy_def
        invalidate_simplex_lp_data_def)
  then show ?thesis
    by (simp add: empty_defs int_quotient_def)
qed

end
